theory Spec2Isabelle
  imports Complex_Main "HOL-Library.Monad_Syntax"
begin

section \<open>Numbers\<close>

text \<open>
  The program computes with JavaScript numbers. They are modelled as real numbers:
  every arithmetic operation is exact, there is no rounding, no NaN and no infinity.
  \<open>Math.sin\<close>, \<open>Math.cos\<close> and \<open>Math.sqrt\<close> are the real functions.
\<close>

definition trunc :: "real \<Rightarrow> int" where
  "trunc a = (if 0 \<le> a then \<lfloor>a\<rfloor> else \<lceil>a\<rceil>)"

text \<open>
  The operator \<open>%\<close> of JavaScript: the remainder of the division truncated towards
  zero, so the result has the sign of the dividend. The divisor is the constant 100 at
  the only place the program uses it.
\<close>

definition js_rem :: "real \<Rightarrow> real \<Rightarrow> real" where
  "js_rem a b = a - b * of_int (trunc (a / b))"

section \<open>The data of \<open>ParticleScene.tsx\<close>\<close>

text \<open>The enum \<open>ParticleMode\<close> and the interface \<open>ParticleConfig\<close>, as the source
  declares them: five modes, five fields.
  \<open>Unrecognized\<close> stands for any other value met at run time in the field \<open>mode\<close>.
  The configuration is polymorphic in the types of \<open>color\<close> and \<open>speed\<close>: the scene
  reads \<open>speed\<close> as a number, the tool-call handler stores whatever value the call
  carries.
\<close>

datatype ParticleMode = FLOAT | GATHER | SWIRL | EXPLODE | RAIN | Unrecognized

record ('c, 's) ParticleConfig =
  mode :: ParticleMode
  color :: 'c
  speed :: 's
  count :: nat
  size_cfg :: real

text \<open>The object pushed by the initialisation loop (\<open>originalColor\<close> is never read).\<close>

record Particle =
  t :: real
  factor :: real
  pSpeed :: real
  x :: real
  y :: real
  z :: real
  mx :: real
  my :: real
  mz :: real

record Vector3 =
  vx :: real
  vy :: real
  vz :: real

text \<open>
  A \<open>THREE.Object3D\<close>, as far as the scene uses it. The matrix that \<open>updateMatrix\<close>
  composes is represented by the position, rotation and scale it is composed from, so the
  instance buffer of the mesh holds such triples.
\<close>

record Object3D =
  position :: Vector3
  rotation :: Vector3
  scale :: Vector3

record InstancedMesh =
  instanceMatrix :: "Object3D list"
  needsUpdate :: bool

text \<open>
  The state the scene keeps between frames: the memoised particle array with the
  \<open>config.count\<close> it was built for, the module-level scratch object \<open>dummy\<close>, and
  \<open>meshRef.current\<close> (absent until the mesh is mounted).
\<close>

record Scene =
  memo_count :: nat
  particles :: "Particle list"
  dummy :: Object3D
  meshRef :: "InstancedMesh option"

definition vec :: "real \<Rightarrow> real \<Rightarrow> real \<Rightarrow> Vector3" where
  "vec a b c = \<lparr>vx = a, vy = b, vz = c\<rparr>"

definition setScalar :: "real \<Rightarrow> Vector3" where
  "setScalar a = vec a a a"

section \<open>Initialisation of the particles\<close>

text \<open>
  \<open>Math.random\<close> is a parameter: \<open>random k\<close> is the value of the \<open>k\<close>-th call.
  Each round of the loop makes six calls.
\<close>

definition new_particle :: "(nat \<Rightarrow> real) \<Rightarrow> nat \<Rightarrow> Particle" where
  "new_particle random i =
     \<lparr>t = random (6 * i) * 100,
      factor = 20 + random (6 * i + 1) * 100,
      pSpeed = 0.01 + random (6 * i + 2) / 200,
      x = random (6 * i + 3) * 100 - 50,
      y = random (6 * i + 4) * 100 - 50,
      z = random (6 * i + 5) * 100 - 50,
      mx = 0, my = 0, mz = 0\<rparr>"

definition init_particles :: "(nat \<Rightarrow> real) \<Rightarrow> nat \<Rightarrow> Particle list" where
  "init_particles random n = map (new_particle random) [0..<n]"

text \<open>\<open>useMemo\<close> with the dependency \<open>config.count\<close>: the array is rebuilt only when
  the count differs from the one it was built for.\<close>

definition useMemo_particles ::
  "(nat \<Rightarrow> real) \<Rightarrow> ('c, real) ParticleConfig \<Rightarrow> Scene \<Rightarrow> Scene" where
  "useMemo_particles random config s =
     (if memo_count s = count config then s
      else s\<lparr>memo_count := count config,
             particles := init_particles random (count config)\<rparr>)"

section \<open>The frame callback\<close>

text \<open>
  The body of \<open>particles.forEach\<close>, up to \<open>updateMatrix\<close>: the \<open>switch\<close> on the
  mode, then the two conditionals on rotation and scale. It mutates the particle and the
  shared scratch object; both are returned. A mode that is none of the five cases runs no
  case of the \<open>switch\<close> (it has no \<open>default\<close>).
\<close>

definition forEach_body ::
  "('c, real) ParticleConfig \<Rightarrow> real \<Rightarrow> nat \<Rightarrow> Particle \<Rightarrow> Object3D \<Rightarrow> Particle \<times> Object3D" where
  "forEach_body config time i particle d =
     (let spd = speed config;
          md = mode config;
          (particle1, d1) =
            (case md of
               FLOAT \<Rightarrow>
                 (let t1 = t particle + spd * 0.5;
                      a = cos t1 + sin (t1 * 1) / 10;
                      b = sin t1 + cos (t1 * 2) / 10;
                      s = cos t1;
                      q = particle\<lparr>t := t1\<rparr>;
                      q = q\<lparr>mx := mx q + (x particle * a - mx q) * 0.1\<rparr>;
                      q = q\<lparr>my := my q + (y particle * b - my q) * 0.1\<rparr>;
                      q = q\<lparr>mz := mz q + (z particle * s - mz q) * 0.1\<rparr>
                  in (q, d\<lparr>position :=
                            vec (x particle + sin (time + x particle) * 2)
                                (y particle + cos (time + y particle) * 2)
                                (z particle + sin (time + z particle) * 2)\<rparr>))
             | GATHER \<Rightarrow>
                 (let q = particle\<lparr>mx := mx particle + (0 - mx particle) * spd * 0.1\<rparr>;
                      q = q\<lparr>my := my q + (0 - my q) * spd * 0.1\<rparr>;
                      q = q\<lparr>mz := mz q + (0 - mz q) * spd * 0.1\<rparr>
                  in (q, d\<lparr>position :=
                            vec (x particle * 0.1 + sin (time * 10 + real i) * 2)
                                (y particle * 0.1 + cos (time * 10 + real i) * 2)
                                (z particle * 0.1)\<rparr>))
             | EXPLODE \<Rightarrow>
                 (particle, d\<lparr>position :=
                            vec (x particle * (1 + sin time * 0.5 + 1.5))
                                (y particle * (1 + cos time * 0.5 + 1.5))
                                (z particle * (1 + sin (time * 0.5) * 0.5 + 1.5))\<rparr>)
             | SWIRL \<Rightarrow>
                 (let angle = time * spd * 2 + real i * 0.01;
                      radius = 15 + sin (time + real i) * 5;
                      d' = d\<lparr>position :=
                            vec (cos angle * radius)
                                ((y particle + sin time * 10) * 0.5)
                                (sin angle * radius)\<rparr>
                  in (particle, d'\<lparr>rotation := (rotation d')\<lparr>vy := angle\<rparr>\<rparr>))
             | RAIN \<Rightarrow>
                 (let fallSpeed = 50 * spd;
                      newY = y particle - js_rem (time * fallSpeed) 100;
                      newY = (if newY < - 50 then newY + 100 else newY)
                  in (particle, d\<lparr>position := vec (x particle) newY (z particle),
                                  scale := vec 1 5 1\<rparr>))
             | Unrecognized \<Rightarrow> (particle, d));
          d2 = (if md \<noteq> SWIRL \<and> md \<noteq> RAIN
                then d1\<lparr>rotation := vec (sin time) (cos time) 0, scale := setScalar 1\<rparr>
                else d1);
          d3 = (if md = RAIN then d2 else d2\<lparr>scale := setScalar (size_cfg config)\<rparr>)
      in (particle1, d3))"

text \<open>
  \<open>particles.forEach((particle, i) => ...)\<close> from index \<open>i\<close> on: each round runs the
  body and copies the matrix of the scratch object into slot \<open>i\<close> of the instance buffer
  (\<open>setMatrixAt\<close>; a write past the end of the buffer is dropped).
\<close>

fun forEach_particles ::
  "('c, real) ParticleConfig \<Rightarrow> real \<Rightarrow> nat \<Rightarrow> Particle list \<Rightarrow> Object3D \<Rightarrow> Object3D list
     \<Rightarrow> Particle list \<times> Object3D \<times> Object3D list" where
  "forEach_particles config time i [] d buf = ([], d, buf)"
| "forEach_particles config time i (p # ps) d buf =
     (let (p', d') = forEach_body config time i p d;
          (ps', d'', buf') = forEach_particles config time (Suc i) ps d' (buf[i := d'])
      in (p' # ps', d'', buf'))"

text \<open>The callback given to \<open>useFrame\<close>; \<open>time\<close> is \<open>state.clock.getElapsedTime()\<close>.
  Without a mounted mesh it returns at once.\<close>

definition useFrame :: "('c, real) ParticleConfig \<Rightarrow> real \<Rightarrow> Scene \<Rightarrow> Scene" where
  "useFrame config time s =
     (case meshRef s of
        None \<Rightarrow> s
      | Some mesh \<Rightarrow>
          (let (ps, d, buf) =
                 forEach_particles config time 0 (particles s) (dummy s) (instanceMatrix mesh)
           in s\<lparr>particles := ps, dummy := d,
                meshRef := Some (mesh\<lparr>instanceMatrix := buf, needsUpdate := True\<rparr>)\<rparr>))"

text \<open>The scene after \<open>n\<close> frames under a constant configuration; \<open>clock k\<close> is the
  elapsed time read by frame \<open>k\<close>.\<close>

primrec after_frames ::
  "('c, real) ParticleConfig \<Rightarrow> (nat \<Rightarrow> real) \<Rightarrow> nat \<Rightarrow> Scene \<Rightarrow> Scene" where
  "after_frames config clock 0 s = s"
| "after_frames config clock (Suc n) s = useFrame config (clock n) (after_frames config clock n s)"

text \<open>\<open>new THREE.Object3D()\<close>: at the origin, not rotated, of scale one.\<close>

definition new_Object3D :: Object3D where
  "new_Object3D = \<lparr>position = vec 0 0 0, rotation = vec 0 0 0, scale = vec 1 1 1\<rparr>"

text \<open>The scene when the component is first rendered with \<open>config\<close>: the particles
  are built, the mesh is not mounted yet.\<close>

definition initial_scene :: "(nat \<Rightarrow> real) \<Rightarrow> ('c, real) ParticleConfig \<Rightarrow> Scene" where
  "initial_scene random config =
     \<lparr>memo_count = count config,
      particles = init_particles random (count config),
      dummy = new_Object3D,
      meshRef = None\<rparr>"

text \<open>
  The scenes the component can be in: the first render, then any sequence of frames,
  of renders with a new configuration (whose particles, if rebuilt, come from later calls
  of \<open>Math.random\<close>) and of changes of the mesh reference.
\<close>

inductive scene_reachable :: "(nat \<Rightarrow> real) \<Rightarrow> Scene \<Rightarrow> bool"
  for random :: "nat \<Rightarrow> real" where
  first_render:
    "scene_reachable random (initial_scene random (config :: (string, real) ParticleConfig))"
| mesh_change:
    "scene_reachable random s \<Longrightarrow> scene_reachable random (s\<lparr>meshRef := m\<rparr>)"
| frame:
    "scene_reachable random s \<Longrightarrow>
     scene_reachable random (useFrame (config :: (string, real) ParticleConfig) time s)"
| render:
    "scene_reachable random s \<Longrightarrow>
     scene_reachable random
       (useMemo_particles (\<lambda>k. random (off + k)) (config :: (string, real) ParticleConfig) s)"

text \<open>What the renderer reads for instance \<open>k\<close>: slot \<open>k\<close> of the instance buffer of
  the mounted mesh.\<close>

definition getMatrixAt :: "Scene \<Rightarrow> nat \<Rightarrow> Object3D option" where
  "getMatrixAt s k =
     (case meshRef s of
        None \<Rightarrow> None
      | Some mesh \<Rightarrow>
          if k < length (instanceMatrix mesh) then Some (instanceMatrix mesh ! k) else None)"

text \<open>The drift of a particle.\<close>

definition drift :: "Particle \<Rightarrow> real \<times> real \<times> real" where
  "drift p = (mx p, my p, mz p)"

section \<open>The data of the application component\<close>

text \<open>
  A tool call arrives from the voice session with the type \<open>any\<close>, so its arguments are
  arbitrary values of a parsed JSON message, or \<open>undefined\<close> where a field is missing:
  an object is the list of its own properties (the first binding of a key counts).
  Reading a property of \<open>undefined\<close> or \<open>null\<close> throws a \<open>TypeError\<close>; reading a
  property that an object does not have gives \<open>undefined\<close>, and so does reading
  \<open>color\<close> or \<open>speed\<close> from a boolean, a number, a string or an array.
\<close>

datatype jsval =
  JUndefined | JNull | JBool bool | JNum real | JStr string
| JArr "jsval list" | JObj "(string \<times> jsval) list"

datatype error = TypeError

fun get_prop :: "jsval \<Rightarrow> string \<Rightarrow> error + jsval" where
  "get_prop JUndefined k = Inl TypeError"
| "get_prop JNull k = Inl TypeError"
| "get_prop (JObj kvs) k = Inr (case map_of kvs k of None \<Rightarrow> JUndefined | Some v \<Rightarrow> v)"
| "get_prop v k = Inr JUndefined"

text \<open>
  Whether the conversion to a string, which a template literal applies to the value it
  interpolates, throws a \<open>TypeError\<close>. A parsed object holds no function, so an object
  with an own property \<open>toString\<close> has no callable \<open>toString\<close>, and \<open>valueOf\<close> (its
  own, not callable, or the inherited one, which returns the object) gives no primitive
  either: the conversion throws. Without that property the inherited \<open>toString\<close>
  answers. An array is joined, which converts every element but \<open>undefined\<close> and
  \<open>null\<close>. The other values convert without error. The resulting string itself is not
  modelled.
\<close>

fun toString_throws :: "jsval \<Rightarrow> bool" where
  "toString_throws (JObj kvs) = (''toString'' \<in> set (map fst kvs))"
| "toString_throws (JArr vs) = list_ex toString_throws vs"
| "toString_throws v = False"

text \<open>
  The calls of the React state setters that a handler makes, in order. Every
  \<open>setConfig\<close> of the program has the form \<open>prev => ({...prev, field: value})\<close>, so it is
  given by the field and the value. \<open>SetConfigFailing\<close> is a \<open>setConfig\<close> whose
  updater throws when React runs it. \<open>addLog\<close> is the call of the logging function; the
  message of a log entry is a template literal with one interpolated value, kept as the
  literal part and the value.
\<close>

datatype ('c, 's) patch = Size real | Mode ParticleMode | Color 'c | Speed 's

datatype ('c, 's) setter_call =
  SetConfig "('c, 's) patch"
| SetConfigFailing
| SetCurrentGesture string
| AddLog "string \<times> jsval" string

record LogEntry =
  message :: "string \<times> jsval"
  source :: string

record ('c, 's) AppState =
  st_config :: "('c, 's) ParticleConfig"
  st_currentGesture :: string
  st_logs :: "LogEntry list"

fun apply_patch :: "('c, 's) patch \<Rightarrow> ('c, 's) ParticleConfig \<Rightarrow> ('c, 's) ParticleConfig" where
  "apply_patch (Size v) prev = prev\<lparr>size_cfg := v\<rparr>"
| "apply_patch (Mode v) prev = prev\<lparr>mode := v\<rparr>"
| "apply_patch (Color v) prev = prev\<lparr>color := v\<rparr>"
| "apply_patch (Speed v) prev = prev\<lparr>speed := v\<rparr>"

text \<open>\<open>addLog\<close> keeps the last four entries and appends the new one (its time stamp is
  left out). The render in which React runs a throwing updater fails with that error and
  produces no new state: the state is left as it was.\<close>

fun apply_call :: "('c, 's) setter_call \<Rightarrow> ('c, 's) AppState \<Rightarrow> ('c, 's) AppState" where
  "apply_call (SetConfig u) st = st\<lparr>st_config := apply_patch u (st_config st)\<rparr>"
| "apply_call SetConfigFailing st = st"
| "apply_call (SetCurrentGesture g) st = st\<lparr>st_currentGesture := g\<rparr>"
| "apply_call (AddLog msg src) st =
     st\<lparr>st_logs := drop (length (st_logs st) - 4) (st_logs st) @ [\<lparr>message = msg, source = src\<rparr>]\<rparr>"

text \<open>The state after React has run the queued setter calls in order.\<close>

definition commit :: "('c, 's) setter_call list \<Rightarrow> ('c, 's) AppState \<Rightarrow> ('c, 's) AppState" where
  "commit calls st = fold apply_call calls st"

text \<open>The initial state of the component.\<close>

definition initial_config :: "(jsval, jsval) ParticleConfig" where
  "initial_config =
     \<lparr>mode = FLOAT, color = JStr ''#00ffff'', speed = JNum 1, count = 2000, size_cfg = 1\<rparr>"

definition initial_state :: "(jsval, jsval) AppState" where
  "initial_state = \<lparr>st_config = initial_config, st_currentGesture = ''None'', st_logs = []\<rparr>"

section \<open>Gestures\<close>

record Landmark =
  x_lm :: real
  y_lm :: real

text \<open>\<open>landmarks[i]\<close>: \<open>undefined\<close> past the end of the array.\<close>

definition at_index :: "'a list \<Rightarrow> nat \<Rightarrow> 'a option" where
  "at_index xs i = (if i < length xs then Some (xs ! i) else None)"

text \<open>\<open>point.x\<close> and \<open>point.y\<close>: a \<open>TypeError\<close> (here \<open>None\<close>) when the point is
  \<open>undefined\<close>.\<close>

definition coord :: "(Landmark \<Rightarrow> real) \<Rightarrow> Landmark option \<Rightarrow> real option" where
  "coord f point = map_option f point"

record Fingers =
  isIndexUp :: bool
  isMiddleUp :: bool
  isRingUp :: bool
  isPinkyUp :: bool
  pinchDist :: real

text \<open>The first part of \<open>analyzeGesture\<close>: the reads of the landmarks, in the order of
  the source, and the five measurements. \<open>None\<close> is the \<open>TypeError\<close> of the first read
  of a missing landmark.\<close>

definition measure_hand :: "Landmark list \<Rightarrow> Fingers option" where
  "measure_hand landmarks =
     (let thumbTip = at_index landmarks 4;
          indexTip = at_index landmarks 8;
          middleTip = at_index landmarks 12;
          ringTip = at_index landmarks 16;
          pinkyTip = at_index landmarks 20;
          indexBase = at_index landmarks 5;
          middleBase = at_index landmarks 9;
          ringBase = at_index landmarks 13;
          pinkyBase = at_index landmarks 17
      in do {
        it_y \<leftarrow> coord y_lm indexTip; ib_y \<leftarrow> coord y_lm indexBase;
        mt_y \<leftarrow> coord y_lm middleTip; mb_y \<leftarrow> coord y_lm middleBase;
        rt_y \<leftarrow> coord y_lm ringTip; rb_y \<leftarrow> coord y_lm ringBase;
        pt_y \<leftarrow> coord y_lm pinkyTip; pb_y \<leftarrow> coord y_lm pinkyBase;
        tt_x \<leftarrow> coord x_lm thumbTip; it_x \<leftarrow> coord x_lm indexTip;
        tt_y \<leftarrow> coord y_lm thumbTip; it_y' \<leftarrow> coord y_lm indexTip;
        Some \<lparr>isIndexUp = it_y < ib_y, isMiddleUp = mt_y < mb_y, isRingUp = rt_y < rb_y,
              isPinkyUp = pt_y < pb_y,
              pinchDist = sqrt ((tt_x - it_x)\<^sup>2 + (tt_y - it_y')\<^sup>2)\<rparr>
      })"

text \<open>The chain of conditionals of \<open>analyzeGesture\<close>: the detected name, the detected
  mode (initially the mode of the configuration the function sees) and the setter calls
  made inside the chain.\<close>

definition detect ::
  "('c, 's) ParticleConfig \<Rightarrow> Fingers \<Rightarrow> string \<times> ParticleMode \<times> ('c, 's) setter_call list" where
  "detect config f =
     (if pinchDist f < 0.05 then
        (''PINCH (Resize)'', mode config, [SetConfig (Size 0.5)])
      else if \<not> isIndexUp f \<and> \<not> isMiddleUp f \<and> \<not> isRingUp f \<and> \<not> isPinkyUp f then
        (''FIST (Gather)'', GATHER, [])
      else if isIndexUp f \<and> isMiddleUp f \<and> \<not> isRingUp f \<and> \<not> isPinkyUp f then
        (''PEACE (Rain)'', RAIN, [])
      else if isIndexUp f \<and> \<not> isMiddleUp f \<and> \<not> isRingUp f \<and> \<not> isPinkyUp f then
        (''POINT (Swirl)'', SWIRL, [])
      else if isIndexUp f \<and> isMiddleUp f \<and> isRingUp f \<and> isPinkyUp f then
        (''OPEN PALM (Explode)'', EXPLODE, [SetConfig (Size 1.0)])
      else
        (''NEUTRAL (Float)'', FLOAT, []))"

text \<open>
  \<open>analyzeGesture\<close>. The function reads \<open>config\<close> and \<open>currentGesture\<close> from the render
  that created it; they are parameters. The result is the list of setter calls made and
  whether the function returned or threw.
\<close>

definition analyzeGesture ::
  "('c, 's) ParticleConfig \<Rightarrow> string \<Rightarrow> Landmark list
     \<Rightarrow> ('c, 's) setter_call list \<times> (error + unit)" where
  "analyzeGesture config currentGesture landmarks =
     (case measure_hand landmarks of
        None \<Rightarrow> ([], Inl TypeError)
      | Some f \<Rightarrow>
          (let (detectedName, detectedMode, calls1) = detect config f;
               calls2 = (if detectedMode \<noteq> mode config
                         then [SetConfig (Mode detectedMode), SetCurrentGesture detectedName]
                         else []);
               calls3 = (if currentGesture \<noteq> detectedName \<and> detectedName \<noteq> []
                         then [SetCurrentGesture detectedName]
                         else [])
           in (calls1 @ calls2 @ calls3, Inr ())))"

text \<open>
  \<open>predictWebcam\<close>: \<open>ready\<close> says that the hand landmarker and the video are ready,
  \<open>results_landmarks\<close> is the field \<open>landmarks\<close> of what \<open>detectForVideo\<close> returned.
  A result \<open>Inr ()\<close> means that the next animation frame was requested; after a throw
  it is not.
\<close>

definition predictWebcam ::
  "bool \<Rightarrow> Landmark list list option \<Rightarrow> ('c, 's) ParticleConfig \<Rightarrow> string
     \<Rightarrow> ('c, 's) setter_call list \<times> (error + unit)" where
  "predictWebcam ready results_landmarks config currentGesture =
     (if \<not> ready then ([], Inr ())
      else (case results_landmarks of
              None \<Rightarrow> ([], Inr ())
            | Some [] \<Rightarrow> ([], Inr ())
            | Some (landmarks # rest) \<Rightarrow> analyzeGesture config currentGesture landmarks))"

text \<open>
  The frames of one run of the vision loop. \<open>predictWebcam\<close> hands itself to
  \<open>requestAnimationFrame\<close>, so every frame of a run executes the function of the render
  in which the session was started: \<open>config\<close> and \<open>currentGesture\<close> are the values of
  that render for the whole run, while the setter calls of each frame act on the state as
  it is then. A frame is given by \<open>ready\<close> and the landmarks of the detection. A throw
  ends the run.
\<close>

fun vision_loop ::
  "('c, 's) ParticleConfig \<Rightarrow> string \<Rightarrow> (bool \<times> Landmark list list option) list
     \<Rightarrow> ('c, 's) AppState \<Rightarrow> ('c, 's) AppState \<times> (error + unit)" where
  "vision_loop config currentGesture [] st = (st, Inr ())"
| "vision_loop config currentGesture ((ready, results_landmarks) # frames) st =
     (case predictWebcam ready results_landmarks config currentGesture of
        (calls, Inl e) \<Rightarrow> (commit calls st, Inl e)
      | (calls, Inr u) \<Rightarrow> vision_loop config currentGesture frames (commit calls st))"

text \<open>The precedence table of the gesture classifier as the specification words it:
  an ordered list of predicates, the first that holds decides, none gives NEUTRAL.\<close>

datatype Gesture = PINCH | FIST | PEACE | POINT | OPEN_PALM | NEUTRAL

definition spec_precedence :: "((Fingers \<Rightarrow> bool) \<times> Gesture) list" where
  "spec_precedence =
     [(\<lambda>f. pinchDist f < 0.05, PINCH),
      (\<lambda>f. \<not> isIndexUp f \<and> \<not> isMiddleUp f \<and> \<not> isRingUp f \<and> \<not> isPinkyUp f, FIST),
      (\<lambda>f. isIndexUp f \<and> isMiddleUp f \<and> \<not> isRingUp f \<and> \<not> isPinkyUp f, PEACE),
      (\<lambda>f. isIndexUp f \<and> \<not> isMiddleUp f \<and> \<not> isRingUp f \<and> \<not> isPinkyUp f, POINT),
      (\<lambda>f. isIndexUp f \<and> isMiddleUp f \<and> isRingUp f \<and> isPinkyUp f, OPEN_PALM)]"

fun first_match :: "((Fingers \<Rightarrow> bool) \<times> Gesture) list \<Rightarrow> Fingers \<Rightarrow> Gesture" where
  "first_match [] f = NEUTRAL"
| "first_match ((holds, g) # rest) f = (if holds f then g else first_match rest f)"

definition spec_classify :: "Fingers \<Rightarrow> Gesture" where
  "spec_classify f = first_match spec_precedence f"

text \<open>The name the program displays for a gesture, and the mode the specification
  gives it (PINCH leaves the mode as it is).\<close>

fun gesture_name :: "Gesture \<Rightarrow> string" where
  "gesture_name PINCH = ''PINCH (Resize)''"
| "gesture_name FIST = ''FIST (Gather)''"
| "gesture_name PEACE = ''PEACE (Rain)''"
| "gesture_name POINT = ''POINT (Swirl)''"
| "gesture_name OPEN_PALM = ''OPEN PALM (Explode)''"
| "gesture_name NEUTRAL = ''NEUTRAL (Float)''"

fun spec_mode :: "ParticleMode \<Rightarrow> Gesture \<Rightarrow> ParticleMode" where
  "spec_mode current PINCH = current"
| "spec_mode current FIST = GATHER"
| "spec_mode current PEACE = RAIN"
| "spec_mode current POINT = SWIRL"
| "spec_mode current OPEN_PALM = EXPLODE"
| "spec_mode current NEUTRAL = FLOAT"

section \<open>Voice tool calls\<close>

text \<open>One element of \<open>toolCall.functionCalls\<close>. Its name is only compared with the
  two tool names, so a name of any other kind behaves as an unknown string does.\<close>

record FunctionCall =
  name :: string
  args :: jsval
  id_call :: jsval

text \<open>A response \<open>{id, name, response: {result: {status}}}\<close>.\<close>

record FunctionResponse =
  id_response :: jsval
  name_response :: string
  status :: string

text \<open>
  One round of the loop of \<open>handleToolCalls\<close>. \<open>setConfig\<close> is called first; its
  updater reads \<open>args.color\<close> (or \<open>args.speed\<close>) only when React runs it. Then the
  template literal given to \<open>addLog\<close> reads the property at once and converts it to a
  string. When \<open>args\<close> is \<open>undefined\<close> or \<open>null\<close> the read throws, and the updater
  already queued will throw as well. When the conversion throws, the updater already
  queued writes the value. After either throw the round makes no further call and pushes
  no response.
\<close>

definition handle_call ::
  "FunctionCall \<Rightarrow> (jsval, jsval) setter_call list \<times> (error + FunctionResponse)" where
  "handle_call call =
     (let result = ''ok'';
          response = \<lparr>id_response = id_call call, name_response = name call, status = result\<rparr>
      in if name call = ''setParticleColor'' then
           (case get_prop (args call) ''color'' of
              Inl e \<Rightarrow> ([SetConfigFailing], Inl e)
            | Inr v \<Rightarrow>
                if toString_throws v then ([SetConfig (Color v)], Inl TypeError)
                else ([SetConfig (Color v), AddLog (''Color: '', v) ''system''], Inr response))
         else if name call = ''setParticleSpeed'' then
           (case get_prop (args call) ''speed'' of
              Inl e \<Rightarrow> ([SetConfigFailing], Inl e)
            | Inr v \<Rightarrow>
                if toString_throws v then ([SetConfig (Speed v)], Inl TypeError)
                else ([SetConfig (Speed v), AddLog (''Speed: '', v) ''system''], Inr response))
         else ([], Inr response))"

text \<open>The loop \<open>for (const call of toolCall.functionCalls)\<close>: a throw ends it, the
  calls made before stay made.\<close>

fun forOf_calls ::
  "FunctionCall list \<Rightarrow> (jsval, jsval) setter_call list \<times> (error + FunctionResponse list)" where
  "forOf_calls [] = ([], Inr [])"
| "forOf_calls (c # cs) =
     (case handle_call c of
        (u, Inl e) \<Rightarrow> (u, Inl e)
      | (u, Inr r) \<Rightarrow>
          (case forOf_calls cs of
             (us, Inl e) \<Rightarrow> (u @ us, Inl e)
           | (us, Inr rs) \<Rightarrow> (u @ us, Inr (r # rs))))"

text \<open>\<open>handleToolCalls\<close>, called with the array \<open>toolCall.functionCalls\<close>:
  \<open>session\<close> says that \<open>sessionRef.current\<close> is set; the value returned is the list of
  responses given to \<open>sendToolResponse\<close>, if any.\<close>

definition handleToolCalls ::
  "bool \<Rightarrow> FunctionCall list
     \<Rightarrow> (jsval, jsval) setter_call list \<times> (error + FunctionResponse list option)" where
  "handleToolCalls session functionCalls =
     (case forOf_calls functionCalls of
        (us, Inl e) \<Rightarrow> (us, Inl e)
      | (us, Inr responses) \<Rightarrow> (us, Inr (if session then Some responses else None)))"

section \<open>Helper definitions for the proofs\<close>

text \<open>The part of the loop body that changes the particle. It does not depend on the
  elapsed time, the index or the scratch object, so it is read off at fixed values.\<close>

definition particle_update :: "('c, real) ParticleConfig \<Rightarrow> Particle \<Rightarrow> Particle" where
  "particle_update config p = fst (forEach_body config 0 0 p \<lparr>position = vec 0 0 0, rotation = vec 0 0 0, scale = vec 0 0 0\<rparr>)"

text \<open>The Euclidean length of a drift vector.\<close>

definition magnitude :: "real \<times> real \<times> real \<Rightarrow> real" where
  "magnitude v = (case v of (a, b, c) \<Rightarrow> sqrt (a\<^sup>2 + b\<^sup>2 + c\<^sup>2))"




section \<open>Concrete inputs\<close>

text \<open>A particle with the given seed, phase zero and no drift; a scene with a mounted
  mesh of as many instances as particles; a random source that always returns one half; a
  scene configuration with the given mode, speed and count.\<close>

definition seed_particle :: "real \<Rightarrow> real \<Rightarrow> real \<Rightarrow> Particle" where
  "seed_particle a b c =
     \<lparr>t = 0, factor = 20, pSpeed = 0.01, x = a, y = b, z = c, mx = 0, my = 0, mz = 0\<rparr>"

definition mounted_scene :: "Particle list \<Rightarrow> Scene" where
  "mounted_scene ps =
     \<lparr>memo_count = length ps, particles = ps, dummy = new_Object3D,
      meshRef = Some \<lparr>instanceMatrix = replicate (length ps) new_Object3D, needsUpdate = False\<rparr>\<rparr>"

definition half_random :: "nat \<Rightarrow> real" where
  "half_random j = 1 / 2"

definition scene_config :: "ParticleMode \<Rightarrow> real \<Rightarrow> nat \<Rightarrow> (string, real) ParticleConfig" where
  "scene_config m v n = \<lparr>mode = m, color = ''#00ffff'', speed = v, count = n, size_cfg = 1\<rparr>"

text \<open>A random source whose first call makes the phase \<open>pi - 1/2\<close> and whose other
  calls make every seed coordinate 10, and the scene of its first render with one
  particle and the mesh mounted.\<close>

definition demo_random :: "nat \<Rightarrow> real" where
  "demo_random j = (if j = 0 then (pi - 1 / 2) / 100 else 3 / 5)"

definition demo_scene :: Scene where
  "demo_scene =
     (initial_scene demo_random (scene_config FLOAT 1 1))
       \<lparr>meshRef := Some \<lparr>instanceMatrix = [new_Object3D], needsUpdate = False\<rparr>\<rparr>"

text \<open>A landmark list of \<open>n\<close> copies of one point (thumb tip and index tip
  coincide, no finger tip is above its base), and three 21-point hands with the thumb tip
  away from the index tip: one with the four finger tips above their bases, one with none
  above its base, one with only the index and ring tips above their bases.\<close>

definition hand :: "Landmark \<Rightarrow> nat \<Rightarrow> Landmark list" where
  "hand p n = replicate n p"

definition open_hand :: "Landmark list" where
  "open_hand =
     map (\<lambda>i. if i = 8 \<or> i = 12 \<or> i = 16 \<or> i = 20 then \<lparr>x_lm = 1 / 2, y_lm = 1 / 5\<rparr>
               else \<lparr>x_lm = 1 / 10, y_lm = 3 / 5\<rparr>) [0..<21]"

definition fist_hand :: "Landmark list" where
  "fist_hand =
     map (\<lambda>i. if i = 4 then \<lparr>x_lm = 1 / 10, y_lm = 1 / 2\<rparr>
               else \<lparr>x_lm = 1 / 2, y_lm = 1 / 2\<rparr>) [0..<21]"

definition neutral_hand :: "Landmark list" where
  "neutral_hand =
     map (\<lambda>i. if i = 4 then \<lparr>x_lm = 1 / 10, y_lm = 1 / 2\<rparr>
               else if i = 8 \<or> i = 16 then \<lparr>x_lm = 1 / 2, y_lm = 1 / 5\<rparr>
               else \<lparr>x_lm = 1 / 2, y_lm = 1 / 2\<rparr>) [0..<21]"


section \<open>The remainder\<close>

lemma js_rem_100_floor: "0 \<le> a \<Longrightarrow> js_rem a 100 = a - 100 * of_int \<lfloor>a / 100\<rfloor>"
  by (simp add: js_rem_def trunc_def)

lemma js_rem_100_bounds:
  assumes "0 \<le> a"
  shows "0 \<le> js_rem a 100" and "js_rem a 100 < 100"
proof -
  have lo: "of_int \<lfloor>a / 100\<rfloor> \<le> a / 100" by (rule of_int_floor_le)
  have hi: "a / 100 < of_int \<lfloor>a / 100\<rfloor> + 1" by linarith
  from lo have "100 * of_int \<lfloor>a / 100\<rfloor> \<le> a" by simp
  with assms show "0 \<le> js_rem a 100" by (simp add: js_rem_100_floor)
  from hi have "a < 100 * of_int \<lfloor>a / 100\<rfloor> + 100" by linarith
  with assms show "js_rem a 100 < 100" by (simp add: js_rem_100_floor)
qed

lemma js_rem_100_shift:
  assumes "0 \<le> a"
  shows "js_rem (a + 100 * of_nat n) 100 = js_rem a 100"
proof -
  have "(a + 100 * of_nat n) / 100 = a / 100 + of_int (int n)" by simp
  then have "\<lfloor>(a + 100 * of_nat n) / 100\<rfloor> = \<lfloor>a / 100\<rfloor> + int n"
    by (simp only: floor_add_int)
  moreover have "0 \<le> a + 100 * of_nat n" using assms by simp
  ultimately show ?thesis using assms by (simp add: js_rem_100_floor algebra_simps)
qed

section \<open>The frame loop\<close>

lemma fst_forEach_body: "fst (forEach_body config time i p d) = particle_update config p"
  by (cases "mode config") (simp_all add: particle_update_def forEach_body_def Let_def)

lemma forEach_particles_fst:
  "fst (forEach_particles config time i ps d buf) = map (particle_update config) ps"
proof (induction ps arbitrary: i d buf)
  case Nil show ?case by simp
next
  case (Cons p ps)
  obtain p' d' where b: "forEach_body config time i p d = (p', d')" by force
  have p': "p' = particle_update config p" using fst_forEach_body [of config time i p d] b by simp
  obtain ps' d'' buf' where r: "forEach_particles config time (Suc i) ps d' (buf[i := d']) = (ps', d'', buf')"
    by (metis prod_cases3)
  have "ps' = map (particle_update config) ps" using Cons.IH [of "Suc i" d' "buf[i := d']"] r by simp
  with b r p' show ?case by simp
qed


lemma forEach_particles_buf_other:
  "j < i \<Longrightarrow> snd (snd (forEach_particles config time i ps d buf)) ! j = buf ! j"
proof (induction ps arbitrary: i d buf)
  case Nil show ?case by simp
next
  case (Cons p ps)
  obtain p' d' where b: "forEach_body config time i p d = (p', d')" by force
  obtain ps' d'' buf' where r: "forEach_particles config time (Suc i) ps d' (buf[i := d']) = (ps', d'', buf')"
    by (metis prod_cases3)
  have "buf' ! j = (buf[i := d']) ! j" using Cons.IH [of "Suc i" d' "buf[i := d']"] r Cons.prems by simp
  with b r Cons.prems show ?case by simp
qed

lemma forEach_particles_buf_length:
  "length (snd (snd (forEach_particles config time i ps d buf))) = length buf"
proof (induction ps arbitrary: i d buf)
  case Nil show ?case by simp
next
  case (Cons p ps)
  obtain p' d' where b: "forEach_body config time i p d = (p', d')" by force
  obtain ps' d'' buf' where r: "forEach_particles config time (Suc i) ps d' (buf[i := d']) = (ps', d'', buf')"
    by (metis prod_cases3)
  have "length buf' = length (buf[i := d'])" using Cons.IH [of "Suc i" d' "buf[i := d']"] r by simp
  with b r show ?case by simp
qed

lemma forEach_particles_buf_slot:
  "k < length ps \<Longrightarrow> i + k < length buf \<Longrightarrow>
   \<exists>d'. snd (snd (forEach_particles config time i ps d buf)) ! (i + k)
          = snd (forEach_body config time (i + k) (ps ! k) d')"
proof (induction ps arbitrary: i d buf k)
  case Nil then show ?case by simp
next
  case (Cons p ps)
  obtain p' d' where b: "forEach_body config time i p d = (p', d')" by force
  obtain ps' d'' buf' where r: "forEach_particles config time (Suc i) ps d' (buf[i := d']) = (ps', d'', buf')"
    by (metis prod_cases3)
  have res: "snd (snd (forEach_particles config time i (p # ps) d buf)) = buf'" using b r by simp
  show ?case
  proof (cases k)
    case 0
    have "buf' ! i = (buf[i := d']) ! i"
      using forEach_particles_buf_other [of i "Suc i" config time ps d' "buf[i := d']"] r by simp
    also have "\<dots> = d'" using Cons.prems 0 by simp
    finally have "buf' ! i = snd (forEach_body config time i p d)" using b by simp
    with res 0 show ?thesis by auto
  next
    case (Suc m)
    have "m < length ps" "Suc i + m < length (buf[i := d'])" using Cons.prems Suc by simp_all
    from Cons.IH [where i = "Suc i" and d = d' and buf = "buf[i := d']" and k = m, OF this] r
    obtain e where "buf' ! (Suc i + m) = snd (forEach_body config time (Suc i + m) (ps ! m) e)" by auto
    with res Suc show ?thesis by auto
  qed
qed

lemma useFrame_particles:
  "meshRef s = Some mesh \<Longrightarrow> particles (useFrame config time s) = map (particle_update config) (particles s)"
proof -
  assume m: "meshRef s = Some mesh"
  obtain ps d' buf where
    r: "forEach_particles config time 0 (particles s) (dummy s) (instanceMatrix mesh) = (ps, d', buf)"
    by (metis prod_cases3)
  from forEach_particles_fst [of config time 0 "particles s" "dummy s" "instanceMatrix mesh"] r
  have "ps = map (particle_update config) (particles s)" by simp
  with m r show ?thesis by (simp add: useFrame_def)
qed

lemma useFrame_particles_unmounted:
  "meshRef s = None \<Longrightarrow> useFrame config time s = s"
  by (simp add: useFrame_def)

lemma useFrame_meshRef:
  "meshRef s = Some mesh \<Longrightarrow> \<exists>mesh'. meshRef (useFrame config time s) = Some mesh'"
  by (simp add: useFrame_def split: prod.splits)

lemma useFrame_getMatrixAt:
  assumes "meshRef s = Some mesh" "k < length (particles s)" "k < length (instanceMatrix mesh)"
  shows "\<exists>d'. getMatrixAt (useFrame config time s) k
           = Some (snd (forEach_body config time k (particles s ! k) d'))"
proof -
  let ?r = "forEach_particles config time 0 (particles s) (dummy s) (instanceMatrix mesh)"
  have len: "length (snd (snd ?r)) = length (instanceMatrix mesh)"
    by (rule forEach_particles_buf_length)
  from forEach_particles_buf_slot [of k "particles s" 0 "instanceMatrix mesh" config time "dummy s"] assms
  obtain d' where slot: "snd (snd ?r) ! k = snd (forEach_body config time k (particles s ! k) d')"
    by auto
  obtain ps e buf where r: "?r = (ps, e, buf)" by (metis prod_cases3)
  have "getMatrixAt (useFrame config time s) k = Some (snd (snd ?r) ! k)"
    using assms len r by (simp add: getMatrixAt_def useFrame_def)
  with slot show ?thesis by auto
qed

lemma after_frames_meshRef:
  "meshRef s = Some mesh \<Longrightarrow> \<exists>mesh'. meshRef (after_frames config clock n s) = Some mesh'"
proof (induction n)
  case 0 then show ?case by simp
next
  case (Suc n)
  then obtain m' where "meshRef (after_frames config clock n s) = Some m'" by auto
  from useFrame_meshRef [OF this] show ?case by simp
qed

lemma after_frames_particles:
  "meshRef s = Some mesh \<Longrightarrow>
   particles (after_frames config clock n s) = map (particle_update config ^^ n) (particles s)"
proof (induction n)
  case 0 then show ?case by simp
next
  case (Suc n)
  from after_frames_meshRef [OF Suc.prems, where config = config and clock = clock and n = n] obtain m' where
    "meshRef (after_frames config clock n s) = Some m'" by auto
  from useFrame_particles [OF this, of config "clock n"] Suc show ?case by (simp add: comp_def)
qed

lemma particle_update_seed:
  "x (particle_update config p) = x p" "y (particle_update config p) = y p" "z (particle_update config p) = z p"
  by (cases "mode config"; simp add: particle_update_def forEach_body_def Let_def)+

lemma particle_update_t:
  "t (particle_update config p) = (if mode config = FLOAT then t p + speed config * 0.5 else t p)"
  by (cases "mode config"; simp add: particle_update_def forEach_body_def Let_def)

lemma particle_update_drift_gather:
  "mode config = GATHER \<Longrightarrow>
   drift (particle_update config p) =
     (mx p * (1 - speed config * 0.1), my p * (1 - speed config * 0.1), mz p * (1 - speed config * 0.1))"
  by (simp add: particle_update_def forEach_body_def Let_def drift_def algebra_simps)


lemma useFrame_particles_mounted:
  "meshRef s \<noteq> None \<Longrightarrow>
   particles (useFrame config time s) = map (particle_update config) (particles s)"
  using useFrame_particles by (cases "meshRef s") auto


lemma useFrame_stays_mounted:
  "meshRef s \<noteq> None \<Longrightarrow> meshRef (useFrame config time s) \<noteq> None"
  using useFrame_meshRef by (cases "meshRef s") fastforce+

lemma particle_update_drift_same:
  "mode config \<noteq> FLOAT \<Longrightarrow> mode config \<noteq> GATHER \<Longrightarrow> drift (particle_update config p) = drift p"
  by (cases "mode config"; simp add: particle_update_def forEach_body_def Let_def drift_def)

lemma body_rain_position:
  "mode config = RAIN \<Longrightarrow>
   position (snd (forEach_body config time i p d)) =
     vec (x p)
         (if y p - js_rem (time * (50 * speed config)) 100 < - 50
          then y p - js_rem (time * (50 * speed config)) 100 + 100
          else y p - js_rem (time * (50 * speed config)) 100)
         (z p)"
  by (simp add: forEach_body_def Let_def)

lemma body_explode_position:
  "mode config = EXPLODE \<Longrightarrow>
   position (snd (forEach_body config time i p d)) =
     vec (x p * (2.5 + 0.5 * sin time)) (y p * (2.5 + 0.5 * cos time))
         (z p * (2.5 + 0.5 * sin (time * 0.5)))"
  by (simp add: forEach_body_def Let_def algebra_simps)

lemma body_unrecognized:
  "mode config = Unrecognized \<Longrightarrow>
   forEach_body config time i p d =
     (p, d\<lparr>rotation := vec (sin time) (cos time) 0, scale := setScalar (size_cfg config)\<rparr>)"
  by (simp add: forEach_body_def Let_def)

lemma seed_invariant:
  assumes "scene_reachable random s"
  shows "\<forall>p \<in> set (particles s). \<exists>j. y p = random j * 100 - 50"
  using assms
proof (induction rule: scene_reachable.induct)
  case (first_render config)
  show ?case by (auto simp: initial_scene_def init_particles_def new_particle_def)
next
  case (mesh_change s m)
  then show ?case by simp
next
  case (frame s config time)
  show ?case
  proof (cases "meshRef s")
    case None
    with frame show ?thesis by (simp add: useFrame_particles_unmounted)
  next
    case (Some mesh)
    with frame show ?thesis by (auto simp: useFrame_particles particle_update_seed)
  qed
next
  case (render s off config)
  show ?case
  proof (cases "memo_count s = count config")
    case True
    with render show ?thesis by (simp add: useMemo_particles_def)
  next
    case False
    have "\<exists>j. y (new_particle (\<lambda>k. random (off + k)) i) = random j * 100 - 50" for i
      by (auto simp: new_particle_def)
    with False show ?thesis by (auto simp: useMemo_particles_def init_particles_def)
  qed
qed

section \<open>RAIN\<close>

lemma rain_fall_range:
  assumes "0 \<le> a" "- 50 \<le> b" "b \<le> 50"
  shows "- 50 \<le> (if b - js_rem a 100 < - 50 then b - js_rem a 100 + 100 else b - js_rem a 100)"
    and "(if b - js_rem a 100 < - 50 then b - js_rem a 100 + 100 else b - js_rem a 100) \<le> 50"
  using js_rem_100_bounds [OF assms(1)] assms(2,3) by auto

text \<open>
  C1. In RAIN mode, for every particle of a reachable scene, every elapsed time
  \<open>time \<ge> 0\<close> and every speed \<open>> 0\<close>, the Y position written for the particle is
  \<open>fall = y - (time * (50 * speed)) % 100\<close>, plus 100 when \<open>fall < -50\<close>. It lies in
  \<open>[-50, 50]\<close>; it differs from \<open>fall\<close> by 0 or by exactly 100, and from the linear fall
  \<open>y - time * 50 * speed\<close> by a whole multiple of 100; it is the same at \<open>time\<close> and at
  \<open>time + 100 / speed\<close> (and already at \<open>time + 2 / speed\<close>).
\<close>
theorem rain_y_position:
  assumes rnd: "\<forall>j. 0 \<le> random j \<and> random j < 1"
    and reach: "scene_reachable random s"
    and mesh: "meshRef s = Some mesh"
    and k: "k < length (particles s)" "k < length (instanceMatrix mesh)"
    and rain: "mode config = RAIN" and spd: "0 < speed config" and tm: "0 \<le> time"
  shows "(case getMatrixAt (useFrame config time s) k of
            None \<Rightarrow> False
          | Some m \<Rightarrow>
              (let fall = y (particles s ! k) - js_rem (time * (50 * speed config)) 100;
                   Y = vy (position m)
               in Y = (if fall < - 50 then fall + 100 else fall)
                  \<and> - 50 \<le> Y \<and> Y \<le> 50
                  \<and> (Y = fall \<or> Y = fall + 100)
                  \<and> (\<exists>n::int. Y = y (particles s ! k) - time * (50 * speed config) + 100 * of_int n)))
         \<and> map_option (vy \<circ> position) (getMatrixAt (useFrame config (time + 100 / speed config) s) k)
             = map_option (vy \<circ> position) (getMatrixAt (useFrame config time s) k)
         \<and> map_option (vy \<circ> position) (getMatrixAt (useFrame config (time + 2 / speed config) s) k)
             = map_option (vy \<circ> position) (getMatrixAt (useFrame config time s) k)"
proof -
  let ?p = "particles s ! k"
  let ?a = "time * (50 * speed config)"
  let ?fall = "y ?p - js_rem ?a 100"
  let ?Y = "if ?fall < - 50 then ?fall + 100 else ?fall"
  have a0: "0 \<le> ?a" using spd tm by simp
  have "?p \<in> set (particles s)" using k(1) by simp
  with seed_invariant [OF reach] obtain j where j: "y ?p = random j * 100 - 50" by auto
  have seed: "- 50 \<le> y ?p" "y ?p \<le> 50" using rnd [rule_format, of j] j by auto
  have Y: "\<And>tm. vy (position (snd (forEach_body config tm k ?p d))) =
      (if y ?p - js_rem (tm * (50 * speed config)) 100 < - 50
       then y ?p - js_rem (tm * (50 * speed config)) 100 + 100
       else y ?p - js_rem (tm * (50 * speed config)) 100)" for d
    by (simp add: body_rain_position [OF rain] vec_def)
  from useFrame_getMatrixAt [OF mesh k, of config time]
  obtain d1 where g1: "getMatrixAt (useFrame config time s) k = Some (snd (forEach_body config time k ?p d1))"
    by auto
  from useFrame_getMatrixAt [OF mesh k, of config "time + 100 / speed config"]
  obtain d2 where g2: "getMatrixAt (useFrame config (time + 100 / speed config) s) k
      = Some (snd (forEach_body config (time + 100 / speed config) k ?p d2))"
    by auto
  have "(time + 100 / speed config) * (50 * speed config) = ?a + 100 * of_nat 50"
    using spd by (simp add: field_simps)
  then have per: "js_rem ((time + 100 / speed config) * (50 * speed config)) 100 = js_rem ?a 100"
    using js_rem_100_shift [OF a0, of 50] by simp
  have "js_rem ?a 100 = ?a - 100 * of_int \<lfloor>?a / 100\<rfloor>" by (rule js_rem_100_floor [OF a0])
  then have lin: "\<exists>n::int. ?Y = y ?p - ?a + 100 * of_int n"
  proof (cases "?fall < - 50")
    case True
    assume e: "js_rem ?a 100 = ?a - 100 * of_int \<lfloor>?a / 100\<rfloor>"
    have "?Y = y ?p - ?a + 100 * of_int (\<lfloor>?a / 100\<rfloor> + 1)" using True e by simp
    then show ?thesis by blast
  next
    case False
    assume e: "js_rem ?a 100 = ?a - 100 * of_int \<lfloor>?a / 100\<rfloor>"
    have "?Y = y ?p - ?a + 100 * of_int \<lfloor>?a / 100\<rfloor>" using False e by simp
    then show ?thesis by blast
  qed
  have r1: "- 50 \<le> ?Y" and r2: "?Y \<le> 50" using rain_fall_range [OF a0 seed] by simp_all
  have first: "(case getMatrixAt (useFrame config time s) k of
            None \<Rightarrow> False
          | Some m \<Rightarrow>
              (let fall = y (particles s ! k) - js_rem (time * (50 * speed config)) 100;
                   Y = vy (position m)
               in Y = (if fall < - 50 then fall + 100 else fall)
                  \<and> - 50 \<le> Y \<and> Y \<le> 50
                  \<and> (Y = fall \<or> Y = fall + 100)
                  \<and> (\<exists>n::int. Y = y (particles s ! k) - time * (50 * speed config) + 100 * of_int n)))"
    unfolding g1 option.case Let_def Y using r1 r2 lin by simp
  have second: "map_option (vy \<circ> position) (getMatrixAt (useFrame config (time + 100 / speed config) s) k)
             = map_option (vy \<circ> position) (getMatrixAt (useFrame config time s) k)"
    unfolding g1 g2 by (simp add: Y per)
  from useFrame_getMatrixAt [OF mesh k, of config "time + 2 / speed config"]
  obtain d3 where g3: "getMatrixAt (useFrame config (time + 2 / speed config) s) k
      = Some (snd (forEach_body config (time + 2 / speed config) k ?p d3))"
    by auto
  have "(time + 2 / speed config) * (50 * speed config) = ?a + 100 * of_nat 1"
    using spd by (simp add: field_simps)
  then have per2: "js_rem ((time + 2 / speed config) * (50 * speed config)) 100 = js_rem ?a 100"
    using js_rem_100_shift [OF a0, of 1] by simp
  have third: "map_option (vy \<circ> position) (getMatrixAt (useFrame config (time + 2 / speed config) s) k)
             = map_option (vy \<circ> position) (getMatrixAt (useFrame config time s) k)"
    unfolding g1 g3 by (simp add: Y per2)
  from first second third show ?thesis by blast
qed

theorem rain_y_position_witness:
  "map_option (vy \<circ> position)
     (getMatrixAt (useFrame (scene_config RAIN 1 1) (3 / 2)
        ((initial_scene half_random (scene_config RAIN 1 1))
           \<lparr>meshRef := Some \<lparr>instanceMatrix = [new_Object3D], needsUpdate = False\<rparr>\<rparr>)) 0)
   = Some 25
   \<and> map_option (vy \<circ> position)
     (getMatrixAt (useFrame (scene_config RAIN 1 1) (3 / 2 + 100 / 1)
        ((initial_scene half_random (scene_config RAIN 1 1))
           \<lparr>meshRef := Some \<lparr>instanceMatrix = [new_Object3D], needsUpdate = False\<rparr>\<rparr>)) 0)
   = Some 25"
proof -
  let ?cfg = "scene_config RAIN 1 1"
  let ?mesh = "\<lparr>instanceMatrix = [new_Object3D], needsUpdate = False\<rparr>"
  let ?s = "(initial_scene half_random ?cfg)\<lparr>meshRef := Some ?mesh\<rparr>"
  have h1: "\<forall>j. 0 \<le> half_random j \<and> half_random j < 1" by (simp add: half_random_def)
  have h2: "scene_reachable half_random ?s" by (rule mesh_change, rule first_render)
  have h3: "meshRef ?s = Some ?mesh" by simp
  have h4: "0 < length (particles ?s)"
    by (simp add: initial_scene_def scene_config_def init_particles_def)
  have h5: "0 < length (instanceMatrix ?mesh)" by simp
  have h6: "mode ?cfg = RAIN" by (simp add: scene_config_def)
  have h7: "0 < speed ?cfg" by (simp add: scene_config_def)
  have h8: "(0::real) \<le> 3 / 2" by simp
  have p: "y (particles ?s ! 0) = 0"
    by (simp add: initial_scene_def scene_config_def init_particles_def new_particle_def
        half_random_def)
  have r: "js_rem (3 / 2 * (50 * speed ?cfg)) 100 = 75"
    by (simp add: scene_config_def js_rem_def trunc_def)
  from rain_y_position [OF h1 h2 h3 h4 h5 h6 h7 h8] p r
  show ?thesis by (auto simp: Let_def scene_config_def split: option.splits)
qed

section \<open>A mode outside the enumeration\<close>

lemma forEach_particles_unrecognized:
  "mode config = Unrecognized \<Longrightarrow> k < length ps \<Longrightarrow> i + k < length buf \<Longrightarrow>
   snd (snd (forEach_particles config time i ps d buf)) ! (i + k)
     = d\<lparr>rotation := vec (sin time) (cos time) 0, scale := setScalar (size_cfg config)\<rparr>"
proof (induction ps arbitrary: i d buf k)
  case Nil then show ?case by simp
next
  case (Cons p ps)
  let ?d = "d\<lparr>rotation := vec (sin time) (cos time) 0, scale := setScalar (size_cfg config)\<rparr>"
  have b: "forEach_body config time i p d = (p, ?d)" by (rule body_unrecognized [OF Cons.prems(1)])
  obtain ps' d'' buf' where r: "forEach_particles config time (Suc i) ps ?d (buf[i := ?d]) = (ps', d'', buf')"
    by (metis prod_cases3)
  have res: "snd (snd (forEach_particles config time i (p # ps) d buf)) = buf'" using b r by simp
  show ?case
  proof (cases k)
    case 0
    have "buf' ! i = (buf[i := ?d]) ! i"
      using forEach_particles_buf_other [of i "Suc i" config time ps ?d "buf[i := ?d]"] r by simp
    also have "\<dots> = ?d" using Cons.prems 0 by simp
    finally show ?thesis using res 0 by simp
  next
    case (Suc m)
    have "m < length ps" "Suc i + m < length (buf[i := ?d])" using Cons.prems Suc by simp_all
    from Cons.IH [where i = "Suc i" and d = ?d and buf = "buf[i := ?d]" and k = m, OF Cons.prems(1) this] r
    have "buf' ! (Suc i + m) = ?d" by simp
    with res Suc show ?thesis by simp
  qed
qed

text \<open>
  C2, as the code has it. With a mode that is none of the five, the frame callback raises
  nothing: every particle is left as it is, and the transform written for it is the scratch
  object with the position it had before the frame, the rotation \<open>(sin time, cos time, 0)\<close>
  and the uniform scale \<open>size\<close>.
\<close>
theorem unrecognized_mode_renders:
  assumes "mode config = Unrecognized" "meshRef s = Some mesh"
    "k < length (particles s)" "k < length (instanceMatrix mesh)"
  shows "getMatrixAt (useFrame config time s) k
           = Some ((dummy s)\<lparr>rotation := vec (sin time) (cos time) 0,
                             scale := setScalar (size_cfg config)\<rparr>)
         \<and> particles (useFrame config time s) = particles s"
proof -
  let ?r = "forEach_particles config time 0 (particles s) (dummy s) (instanceMatrix mesh)"
  obtain ps e buf where r: "?r = (ps, e, buf)" by (metis prod_cases3)
  have len: "length (snd (snd ?r)) = length (instanceMatrix mesh)"
    by (rule forEach_particles_buf_length)
  have "getMatrixAt (useFrame config time s) k = Some (snd (snd ?r) ! k)"
    using assms len r by (simp add: getMatrixAt_def useFrame_def)
  moreover have "snd (snd ?r) ! k = (dummy s)\<lparr>rotation := vec (sin time) (cos time) 0,
                             scale := setScalar (size_cfg config)\<rparr>"
    using forEach_particles_unrecognized [OF assms(1,3), of 0 "instanceMatrix mesh" time "dummy s"] assms(4)
    by simp
  moreover have "particle_update config p = p" for p
    using body_unrecognized [OF assms(1), of 0 0 p] by (simp add: particle_update_def)
  then have "particle_update config = id" by (simp add: fun_eq_iff)
  then have "particles (useFrame config time s) = particles s"
    by (simp add: useFrame_particles [OF assms(2)])
  ultimately show ?thesis by simp
qed

theorem unrecognized_mode_counterexample:
  "useFrame (scene_config Unrecognized 1 1) 0 (mounted_scene [seed_particle 1 2 3])
     = \<lparr>memo_count = 1, particles = [seed_particle 1 2 3],
        dummy = \<lparr>position = vec 0 0 0, rotation = vec 0 1 0, scale = vec 1 1 1\<rparr>,
        meshRef = Some \<lparr>instanceMatrix = [\<lparr>position = vec 0 0 0, rotation = vec 0 1 0, scale = vec 1 1 1\<rparr>],
                        needsUpdate = True\<rparr>\<rparr>"
  by (simp add: useFrame_def mounted_scene_def scene_config_def forEach_body_def new_Object3D_def
      setScalar_def)

section \<open>EXPLODE\<close>

text \<open>
  C7, as the code has it. In EXPLODE mode the position written for a particle is
  \<open>(x * (2.5 + 0.5 * sin time), y * (2.5 + 0.5 * cos time), z * (2.5 + 0.5 * sin (time * 0.5)))\<close>
  and the drift of every particle is left as it is; at \<open>time = 0\<close> the position is
  \<open>(2.5 * x, 3 * y, 2.5 * z)\<close>.
\<close>
theorem explode_position:
  assumes "mode config = EXPLODE" "meshRef s = Some mesh"
    "k < length (particles s)" "k < length (instanceMatrix mesh)"
  shows "map_option position (getMatrixAt (useFrame config time s) k)
           = Some (vec (x (particles s ! k) * (2.5 + 0.5 * sin time))
                       (y (particles s ! k) * (2.5 + 0.5 * cos time))
                       (z (particles s ! k) * (2.5 + 0.5 * sin (time * 0.5))))
         \<and> map drift (particles (useFrame config time s)) = map drift (particles s)
         \<and> map_option position (getMatrixAt (useFrame config 0 s) k)
           = Some (vec (x (particles s ! k) * 2.5) (y (particles s ! k) * 3) (z (particles s ! k) * 2.5))"
proof -
  have pos: "map_option position (getMatrixAt (useFrame config tm s) k)
           = Some (vec (x (particles s ! k) * (2.5 + 0.5 * sin tm))
                       (y (particles s ! k) * (2.5 + 0.5 * cos tm))
                       (z (particles s ! k) * (2.5 + 0.5 * sin (tm * 0.5))))" for tm
  proof -
    from useFrame_getMatrixAt [OF assms(2,3,4), of config tm]
    obtain d' where "getMatrixAt (useFrame config tm s) k
       = Some (snd (forEach_body config tm k (particles s ! k) d'))" by auto
    then show ?thesis by (simp add: body_explode_position [OF assms(1)])
  qed
  have "drift (particle_update config p) = drift p" for p
    using assms(1) by (simp add: particle_update_drift_same)
  then have dr: "map drift (particles (useFrame config time s)) = map drift (particles s)"
    by (simp add: useFrame_particles [OF assms(2)])
  have zero: "map_option position (getMatrixAt (useFrame config 0 s) k)
           = Some (vec (x (particles s ! k) * 2.5) (y (particles s ! k) * 3) (z (particles s ! k) * 2.5))"
    using pos [of 0] by simp
  from pos [of time] dr zero show ?thesis by blast
qed

theorem explode_time_zero_counterexample:
  "count (scene_config EXPLODE 1 3) = 3
   \<and> map_option position
       (getMatrixAt (useFrame (scene_config EXPLODE 1 3) 0
          (mounted_scene [seed_particle 10 10 10, seed_particle 20 20 20, seed_particle 30 30 30])) 0)
     = Some (vec 25 30 25)
   \<and> vec 25 30 25 \<noteq> vec (10 * 2.5) (10 * 2.5) (10 * 2.5)"
  by (simp add: useFrame_def mounted_scene_def scene_config_def forEach_body_def new_Object3D_def
      setScalar_def getMatrixAt_def seed_particle_def vec_def)

section \<open>GATHER\<close>

lemma particle_update_gather_pow:
  assumes "mode config = GATHER"
  shows "drift ((particle_update config ^^ n) p) =
     (mx p * (1 - speed config * 0.1) ^ n, my p * (1 - speed config * 0.1) ^ n,
      mz p * (1 - speed config * 0.1) ^ n)"
proof (induction n)
  case 0 show ?case by (simp add: drift_def)
next
  case (Suc n)
  have "drift ((particle_update config ^^ Suc n) p)
      = drift (particle_update config ((particle_update config ^^ n) p))" by simp
  also have "\<dots> = (mx ((particle_update config ^^ n) p) * (1 - speed config * 0.1),
                   my ((particle_update config ^^ n) p) * (1 - speed config * 0.1),
                   mz ((particle_update config ^^ n) p) * (1 - speed config * 0.1))"
    by (rule particle_update_drift_gather [OF assms])
  finally show ?case using Suc by (simp add: drift_def)
qed

lemma magnitude_scale:
  "magnitude (a * c, b * c, e * c) = \<bar>c\<bar> * magnitude (a, b, e)"
proof -
  have "(a * c)\<^sup>2 + (b * c)\<^sup>2 + (e * c)\<^sup>2 = c\<^sup>2 * (a\<^sup>2 + b\<^sup>2 + e\<^sup>2)"
    by (simp add: power2_eq_square algebra_simps)
  then show ?thesis by (simp add: magnitude_def real_sqrt_mult)
qed

lemma magnitude_pos: "v \<noteq> (0, 0, 0) \<Longrightarrow> 0 < magnitude v"
proof -
  assume nz: "v \<noteq> (0, 0, 0)"
  obtain a b c where v: "v = (a, b, c)" by (metis prod_cases3)
  have sq: "0 \<le> a\<^sup>2" "0 \<le> b\<^sup>2" "0 \<le> c\<^sup>2" by simp_all
  from nz v consider "a \<noteq> 0" | "b \<noteq> 0" | "c \<noteq> 0" by auto
  then have "0 < a\<^sup>2 + b\<^sup>2 + c\<^sup>2"
  proof cases
    case 1
    then have "0 < a\<^sup>2" by simp
    with sq show ?thesis by linarith
  next
    case 2
    then have "0 < b\<^sup>2" by simp
    with sq show ?thesis by linarith
  next
    case 3
    then have "0 < c\<^sup>2" by simp
    with sq show ?thesis by linarith
  qed
  then show ?thesis by (simp add: magnitude_def v)
qed

text \<open>
  C8, as the code has it. In GATHER mode a frame multiplies every drift component by
  \<open>1 - speed * 0.1\<close>, for every speed, so the magnitude of the drift is multiplied by
  the absolute value of that factor. For \<open>0 < speed < 20\<close> the magnitude does not grow,
  it strictly decreases when the drift is not zero, and under a constant configuration
  every drift component tends to 0 as the number of frames grows.
\<close>
theorem gather_drift_converges:
  assumes "mode config = GATHER" "meshRef s = Some mesh" "k < length (particles s)"
  shows "drift (particles (useFrame config time s) ! k)
           = (mx (particles s ! k) * (1 - speed config * 0.1),
              my (particles s ! k) * (1 - speed config * 0.1),
              mz (particles s ! k) * (1 - speed config * 0.1))
         \<and> magnitude (drift (particles (useFrame config time s) ! k))
             = \<bar>1 - speed config * 0.1\<bar> * magnitude (drift (particles s ! k))
         \<and> (0 < speed config \<and> speed config < 20 \<longrightarrow>
              magnitude (drift (particles (useFrame config time s) ! k))
                \<le> magnitude (drift (particles s ! k))
              \<and> (drift (particles s ! k) \<noteq> (0, 0, 0) \<longrightarrow>
                   magnitude (drift (particles (useFrame config time s) ! k))
                     < magnitude (drift (particles s ! k)))
              \<and> (\<lambda>n. mx (particles (after_frames config clock n s) ! k)) \<longlonglongrightarrow> 0
              \<and> (\<lambda>n. my (particles (after_frames config clock n s) ! k)) \<longlonglongrightarrow> 0
              \<and> (\<lambda>n. mz (particles (after_frames config clock n s) ! k)) \<longlonglongrightarrow> 0)"
proof -
  let ?p = "particles s ! k"
  let ?c = "1 - speed config * 0.1"
  have step: "drift (particles (useFrame config time s) ! k) = (mx ?p * ?c, my ?p * ?c, mz ?p * ?c)"
    using assms(3) by (simp add: useFrame_particles [OF assms(2)] particle_update_drift_gather [OF assms(1)])
  have mag: "magnitude (drift (particles (useFrame config time s) ! k)) = \<bar>?c\<bar> * magnitude (drift ?p)"
    unfolding step by (simp add: magnitude_scale drift_def)
  have m0: "0 \<le> magnitude (drift ?p)" by (simp add: magnitude_def split: prod.splits)
  have run: "drift (particles (after_frames config clock n s) ! k)
      = (mx ?p * ?c ^ n, my ?p * ?c ^ n, mz ?p * ?c ^ n)" for n
    using assms(3)
    by (simp add: after_frames_particles [OF assms(2)] particle_update_gather_pow [OF assms(1)])
  have slow: "magnitude (drift (particles (useFrame config time s) ! k)) \<le> magnitude (drift ?p)
      \<and> (drift ?p \<noteq> (0, 0, 0) \<longrightarrow>
           magnitude (drift (particles (useFrame config time s) ! k)) < magnitude (drift ?p))
      \<and> (\<lambda>n. mx (particles (after_frames config clock n s) ! k)) \<longlonglongrightarrow> 0
      \<and> (\<lambda>n. my (particles (after_frames config clock n s) ! k)) \<longlonglongrightarrow> 0
      \<and> (\<lambda>n. mz (particles (after_frames config clock n s) ! k)) \<longlonglongrightarrow> 0"
    if range: "0 < speed config \<and> speed config < 20"
  proof -
    have c: "\<bar>?c\<bar> < 1" using range by (simp add: abs_less_iff)
    have le: "magnitude (drift (particles (useFrame config time s) ! k)) \<le> magnitude (drift ?p)"
      unfolding mag using c m0 by (simp add: mult_left_le_one_le)
    have lt: "magnitude (drift (particles (useFrame config time s) ! k)) < magnitude (drift ?p)"
      if "drift ?p \<noteq> (0, 0, 0)"
    proof -
      have "0 < magnitude (drift ?p)" using that by (rule magnitude_pos)
      with c show ?thesis unfolding mag by simp
    qed
    have pw: "(\<lambda>n. ?c ^ n) \<longlonglongrightarrow> 0" using c by (rule LIMSEQ_abs_realpow_zero2)
    have lim: "(\<lambda>n. a * ?c ^ n) \<longlonglongrightarrow> 0" for a
      using tendsto_mult_left [OF pw, of a] by simp
    have "(\<lambda>n. mx (particles (after_frames config clock n s) ! k)) = (\<lambda>n. mx ?p * ?c ^ n)"
      using run by (simp add: drift_def fun_eq_iff)
    then have l1: "(\<lambda>n. mx (particles (after_frames config clock n s) ! k)) \<longlonglongrightarrow> 0"
      using lim [of "mx ?p"] by simp
    have "(\<lambda>n. my (particles (after_frames config clock n s) ! k)) = (\<lambda>n. my ?p * ?c ^ n)"
      using run by (simp add: drift_def fun_eq_iff)
    then have l2: "(\<lambda>n. my (particles (after_frames config clock n s) ! k)) \<longlonglongrightarrow> 0"
      using lim [of "my ?p"] by simp
    have "(\<lambda>n. mz (particles (after_frames config clock n s) ! k)) = (\<lambda>n. mz ?p * ?c ^ n)"
      using run by (simp add: drift_def fun_eq_iff)
    then have l3: "(\<lambda>n. mz (particles (after_frames config clock n s) ! k)) \<longlonglongrightarrow> 0"
      using lim [of "mz ?p"] by simp
    from le lt l1 l2 l3 show ?thesis by blast
  qed
  from step mag slow show ?thesis by blast
qed

section \<open>FLOAT\<close>

lemma particle_update_float_pow:
  assumes "mode config = FLOAT"
  shows "t ((particle_update config ^^ n) p) = t p + real n * (speed config * 0.5)"
  by (induction n) (simp_all add: particle_update_t assms algebra_simps)

text \<open>
  C9. In FLOAT mode a frame adds exactly \<open>speed * 0.5\<close> to the phase \<open>t\<close> of every
  particle, a frame in any other mode leaves every phase as it is, and with FLOAT held and
  \<open>speed > 0\<close> the phase after \<open>n2\<close> frames is greater than after \<open>n1 < n2\<close> frames.
\<close>
theorem float_phase_accumulates:
  assumes "meshRef s = Some mesh" "k < length (particles s)"
    "mode config = FLOAT" "0 < speed config" "mode other \<noteq> FLOAT" "n1 < n2"
  shows "t (particles (useFrame config time s) ! k) = t (particles s ! k) + speed config * 0.5
         \<and> map t (particles (useFrame other time s)) = map t (particles s)
         \<and> t (particles (after_frames config clock n1 s) ! k)
             < t (particles (after_frames config clock n2 s) ! k)"
proof -
  have a: "t (particles (useFrame config time s) ! k) = t (particles s ! k) + speed config * 0.5"
    using assms(2,3) by (simp add: useFrame_particles [OF assms(1)] particle_update_t)
  have b: "map t (particles (useFrame other time s)) = map t (particles s)"
    using assms(5) by (simp add: useFrame_particles [OF assms(1)] particle_update_t comp_def)
  have run: "t (particles (after_frames config clock n s) ! k)
      = t (particles s ! k) + real n * (speed config * 0.5)" for n
    using assms(2)
    by (simp add: after_frames_particles [OF assms(1)] particle_update_float_pow [OF assms(3)])
  have "real n1 * (speed config * 0.5) < real n2 * (speed config * 0.5)"
    using assms(4,6) by simp
  then have c: "t (particles (after_frames config clock n1 s) ! k)
             < t (particles (after_frames config clock n2 s) ! k)"
    by (simp add: run)
  from a b c show ?thesis by blast
qed

section \<open>Drift across configuration writes\<close>




section \<open>Tool calls\<close>






lemma handle_call_absent_args:
  "name c = ''setParticleColor'' \<or> name c = ''setParticleSpeed'' \<Longrightarrow>
   args c = JUndefined \<or> args c = JNull \<Longrightarrow>
   handleToolCalls session [c] = ([SetConfigFailing], Inl TypeError)"
  by (auto simp: handleToolCalls_def handle_call_def Let_def)

lemma handle_call_unprintable_color:
  "handleToolCalls session
     [\<lparr>name = ''setParticleColor'', args = JObj [(''color'', JObj [(''toString'', JNum 1)])],
       id_call = i\<rparr>]
   = ([SetConfig (Color (JObj [(''toString'', JNum 1)]))], Inl TypeError)"
  by (simp add: handleToolCalls_def handle_call_def)

lemma handle_call_batch_aborted:
  "handleToolCalls True
     [\<lparr>name = ''setParticleColor'', args = JObj [(''color'', JStr ''red'')], id_call = JStr ''a''\<rparr>,
      \<lparr>name = ''setParticleSpeed'', args = JUndefined, id_call = JStr ''b''\<rparr>]
   = ([SetConfig (Color (JStr ''red'')), AddLog (''Color: '', JStr ''red'') ''system'',
       SetConfigFailing], Inl TypeError)"
  by (simp add: handleToolCalls_def handle_call_def)




section \<open>Gesture classification\<close>

lemma measure_hand_short: "length landmarks < 21 \<Longrightarrow> measure_hand landmarks = None"
  by (simp add: measure_hand_def at_index_def coord_def Let_def split: Option.bind_splits)

lemma measure_hand_full:
  "21 \<le> length landmarks \<Longrightarrow>
   measure_hand landmarks =
     Some \<lparr>isIndexUp = y_lm (landmarks ! 8) < y_lm (landmarks ! 5),
           isMiddleUp = y_lm (landmarks ! 12) < y_lm (landmarks ! 9),
           isRingUp = y_lm (landmarks ! 16) < y_lm (landmarks ! 13),
           isPinkyUp = y_lm (landmarks ! 20) < y_lm (landmarks ! 17),
           pinchDist = sqrt ((x_lm (landmarks ! 4) - x_lm (landmarks ! 8))\<^sup>2
                             + (y_lm (landmarks ! 4) - y_lm (landmarks ! 8))\<^sup>2)\<rparr>"
  by (simp add: measure_hand_def at_index_def coord_def Let_def)

text \<open>
  C5, as the code has it. With fewer than 21 landmarks \<open>analyzeGesture\<close> throws a
  \<open>TypeError\<close> before it calls any setter, so the configuration is not altered; the
  error leaves \<open>predictWebcam\<close> as well, which then requests no further frame. Only a
  detection with no hand at all is skipped without an error.
\<close>
theorem short_landmarks_throw:
  assumes "length landmarks < 21"
  shows "analyzeGesture config currentGesture landmarks = ([], Inl TypeError)
         \<and> predictWebcam True (Some (landmarks # rest)) config currentGesture = ([], Inl TypeError)
         \<and> commit (fst (predictWebcam True (Some (landmarks # rest)) config currentGesture)) st = st
         \<and> predictWebcam True (Some []) config currentGesture = ([], Inr ())"
  using assms
  by (simp add: analyzeGesture_def predictWebcam_def measure_hand_short commit_def)

theorem short_landmarks_counterexample:
  "length (hand \<lparr>x_lm = 1 / 2, y_lm = 1 / 2\<rparr> 20) < 21
   \<and> snd (predictWebcam True (Some [hand \<lparr>x_lm = 1 / 2, y_lm = 1 / 2\<rparr> 20]) initial_config ''None'')
       = Inl TypeError"
  by (simp add: hand_def predictWebcam_def analyzeGesture_def measure_hand_def at_index_def coord_def)

theorem short_landmarks_throw_witness:
  "analyzeGesture initial_config ''None'' (hand \<lparr>x_lm = 1 / 2, y_lm = 1 / 2\<rparr> 20) = ([], Inl TypeError)
   \<and> commit (fst (predictWebcam True (Some [hand \<lparr>x_lm = 1 / 2, y_lm = 1 / 2\<rparr> 20])
        initial_config ''None'')) initial_state = initial_state"
proof -
  have h: "length (hand \<lparr>x_lm = 1 / 2, y_lm = 1 / 2\<rparr> 20) < 21" by (simp add: hand_def)
  from short_landmarks_throw [OF h, of initial_config "''None''" "[]" initial_state]
  show ?thesis by blast
qed

lemma detect_refines_spec:
  "detect config f =
     (gesture_name (spec_classify f), spec_mode (mode config) (spec_classify f),
      (if spec_classify f = PINCH then [SetConfig (Size 0.5)]
       else if spec_classify f = OPEN_PALM then [SetConfig (Size 1.0)] else []))"
  by (simp add: detect_def spec_classify_def spec_precedence_def)

lemma gesture_name_nonempty: "gesture_name g \<noteq> []"
  by (cases g) simp_all

lemma spec_classify_pinch: "spec_classify f = PINCH \<longleftrightarrow> pinchDist f < 0.05"
  by (simp add: spec_classify_def spec_precedence_def)

lemma analyzeGesture_calls:
  assumes "measure_hand landmarks = Some f"
  shows "analyzeGesture config g landmarks =
     ((if spec_classify f = PINCH then [SetConfig (Size 0.5)]
       else if spec_classify f = OPEN_PALM then [SetConfig (Size 1.0)] else [])
      @ (if spec_mode (mode config) (spec_classify f) \<noteq> mode config
         then [SetConfig (Mode (spec_mode (mode config) (spec_classify f))),
               SetCurrentGesture (gesture_name (spec_classify f))]
         else [])
      @ (if g \<noteq> gesture_name (spec_classify f)
         then [SetCurrentGesture (gesture_name (spec_classify f))] else []),
      Inr ())"
  by (simp add: analyzeGesture_def assms detect_refines_spec gesture_name_nonempty)

text \<open>
  C6. For a 21-point landmark list the measurements are read from the landmarks 4, 5, 8,
  9, 12, 13, 16, 17 and 20, and the name and the mode that \<open>analyzeGesture\<close> detects are
  those of the first matching row of the precedence table PINCH, FIST, PEACE, POINT,
  OPEN_PALM, else NEUTRAL. The function returns; when the configuration and the label it
  sees are the current ones, the state after its writes has that mode and that label. A
  pinch (distance below 0.05) sets the size to 0.5 and leaves the mode of the state as it
  is, whatever the other measurements are.
\<close>
theorem gesture_precedence:
  assumes "length landmarks = 21"
  shows "(case measure_hand landmarks of
            None \<Rightarrow> False
          | Some f \<Rightarrow>
              f = \<lparr>isIndexUp = y_lm (landmarks ! 8) < y_lm (landmarks ! 5),
                   isMiddleUp = y_lm (landmarks ! 12) < y_lm (landmarks ! 9),
                   isRingUp = y_lm (landmarks ! 16) < y_lm (landmarks ! 13),
                   isPinkyUp = y_lm (landmarks ! 20) < y_lm (landmarks ! 17),
                   pinchDist = sqrt ((x_lm (landmarks ! 4) - x_lm (landmarks ! 8))\<^sup>2
                                     + (y_lm (landmarks ! 4) - y_lm (landmarks ! 8))\<^sup>2)\<rparr>
              \<and> fst (detect config f) = gesture_name (spec_classify f)
              \<and> fst (snd (detect config f)) = spec_mode (mode config) (spec_classify f)
              \<and> snd (analyzeGesture config g landmarks) = Inr ()
              \<and> (mode (st_config st) = mode config \<and> st_currentGesture st = g \<longrightarrow>
                   mode (st_config (commit (fst (analyzeGesture config g landmarks)) st))
                     = spec_mode (mode config) (spec_classify f)
                   \<and> st_currentGesture (commit (fst (analyzeGesture config g landmarks)) st)
                     = gesture_name (spec_classify f))
              \<and> (pinchDist f < 0.05 \<longrightarrow>
                   size_cfg (st_config (commit (fst (analyzeGesture config g landmarks)) st)) = 0.5
                   \<and> mode (st_config (commit (fst (analyzeGesture config g landmarks)) st))
                       = mode (st_config st)))"
proof -
  let ?f = "\<lparr>isIndexUp = y_lm (landmarks ! 8) < y_lm (landmarks ! 5),
                   isMiddleUp = y_lm (landmarks ! 12) < y_lm (landmarks ! 9),
                   isRingUp = y_lm (landmarks ! 16) < y_lm (landmarks ! 13),
                   isPinkyUp = y_lm (landmarks ! 20) < y_lm (landmarks ! 17),
                   pinchDist = sqrt ((x_lm (landmarks ! 4) - x_lm (landmarks ! 8))\<^sup>2
                                     + (y_lm (landmarks ! 4) - y_lm (landmarks ! 8))\<^sup>2)\<rparr>"
  have m: "measure_hand landmarks = Some ?f" using assms by (simp add: measure_hand_full)
  note calls = analyzeGesture_calls [OF m, of config g]
  have a: "fst (detect config ?f) = gesture_name (spec_classify ?f)"
    and b: "fst (snd (detect config ?f)) = spec_mode (mode config) (spec_classify ?f)"
    by (simp_all add: detect_refines_spec)
  have c: "snd (analyzeGesture config g landmarks) = Inr ()" by (simp add: calls)
  have d: "mode (st_config (commit (fst (analyzeGesture config g landmarks)) st))
                     = spec_mode (mode config) (spec_classify ?f)
           \<and> st_currentGesture (commit (fst (analyzeGesture config g landmarks)) st)
                     = gesture_name (spec_classify ?f)"
    if "mode (st_config st) = mode config" "st_currentGesture st = g"
    using that by (simp add: calls commit_def)
  have e: "size_cfg (st_config (commit (fst (analyzeGesture config g landmarks)) st)) = 0.5
           \<and> mode (st_config (commit (fst (analyzeGesture config g landmarks)) st))
               = mode (st_config st)"
    if "pinchDist ?f < 0.05"
  proof -
    have "spec_classify ?f = PINCH" using that by (simp only: spec_classify_pinch)
    then show ?thesis by (simp add: calls commit_def)
  qed
  show ?thesis unfolding m option.case using a b c d e by blast
qed

lemma sqrt_less_threshold: "(sqrt a < 1 / 20) = (a < 1 / 400)"
proof -
  have "sqrt (1 / 400) = (1 / 20 :: real)"
    by (rule real_sqrt_unique) (simp_all add: power2_eq_square)
  then have "(sqrt a < 1 / 20) = (sqrt a < sqrt (1 / 400))" by (simp only:)
  also have "\<dots> = (a < 1 / 400)" by (rule real_sqrt_less_iff)
  finally show ?thesis .
qed

theorem gesture_precedence_witness:
  "st_currentGesture (commit (fst (analyzeGesture initial_config ''None''
       (hand \<lparr>x_lm = 1 / 2, y_lm = 1 / 2\<rparr> 21))) initial_state) = ''PINCH (Resize)''
   \<and> size_cfg (st_config (commit (fst (analyzeGesture initial_config ''None''
       (hand \<lparr>x_lm = 1 / 2, y_lm = 1 / 2\<rparr> 21))) initial_state)) = 0.5
   \<and> mode (st_config (commit (fst (analyzeGesture initial_config ''None''
       (hand \<lparr>x_lm = 1 / 2, y_lm = 1 / 2\<rparr> 21))) initial_state)) = FLOAT"
proof -
  let ?lm = "hand \<lparr>x_lm = 1 / 2, y_lm = 1 / 2\<rparr> 21"
  have h: "length ?lm = 21" by (simp add: hand_def)
  have n: "?lm ! 4 = \<lparr>x_lm = 1 / 2, y_lm = 1 / 2\<rparr>" "?lm ! 8 = \<lparr>x_lm = 1 / 2, y_lm = 1 / 2\<rparr>"
    by (simp_all add: hand_def)
  have st: "mode (st_config initial_state) = mode initial_config
            \<and> st_currentGesture initial_state = ''None''"
    by (simp add: initial_state_def)
  from gesture_precedence [OF h, of initial_config "''None''" initial_state] st n
  show ?thesis
    by (auto simp: spec_classify_def spec_precedence_def initial_state_def initial_config_def
        split: option.splits)
qed

lemma size_writes_unconditional:
  assumes "measure_hand landmarks = Some f"
  shows "(pinchDist f < 0.05 \<longrightarrow>
            SetConfig (Size 0.5)
              \<in> set (fst (predictWebcam True (Some (landmarks # rest)) config g))
            \<and> size_cfg (st_config
                (commit (fst (predictWebcam True (Some (landmarks # rest)) config g)) st)) = 0.5)
         \<and> (\<not> pinchDist f < 0.05 \<and> isIndexUp f \<and> isMiddleUp f \<and> isRingUp f \<and> isPinkyUp f \<longrightarrow>
            SetConfig (Size 1.0)
              \<in> set (fst (predictWebcam True (Some (landmarks # rest)) config g))
            \<and> size_cfg (st_config
                (commit (fst (predictWebcam True (Some (landmarks # rest)) config g)) st)) = 1.0)"
proof -
  let ?calls = "fst (predictWebcam True (Some (landmarks # rest)) config g)"
  have p: "predictWebcam True (Some (landmarks # rest)) config g = analyzeGesture config g landmarks"
    by (simp add: predictWebcam_def)
  note calls = analyzeGesture_calls [OF assms, of config g]
  have a: "SetConfig (Size 0.5) \<in> set ?calls \<and> size_cfg (st_config (commit ?calls st)) = 0.5"
    if "pinchDist f < 0.05"
  proof -
    have "spec_classify f = PINCH" using that by (simp only: spec_classify_pinch)
    then show ?thesis by (simp add: p calls commit_def)
  qed
  have b: "SetConfig (Size 1.0) \<in> set ?calls \<and> size_cfg (st_config (commit ?calls st)) = 1.0"
    if "\<not> pinchDist f < 0.05 \<and> isIndexUp f \<and> isMiddleUp f \<and> isRingUp f \<and> isPinkyUp f"
  proof -
    have "spec_classify f = OPEN_PALM" using that by (simp add: spec_classify_def spec_precedence_def)
    then show ?thesis by (simp add: p calls commit_def)
  qed
  from a b show ?thesis by blast
qed

lemma writes_gated_on_closure:
  assumes "measure_hand landmarks = Some f"
  shows "(SetConfig (Mode m) \<in> set (fst (predictWebcam True (Some (landmarks # rest)) config g))
              \<longleftrightarrow> m = fst (snd (detect config f)) \<and> m \<noteq> mode config)
         \<and> (SetCurrentGesture n \<in> set (fst (predictWebcam True (Some (landmarks # rest)) config g))
              \<longleftrightarrow> n = fst (detect config f)
                   \<and> (fst (snd (detect config f)) \<noteq> mode config \<or> g \<noteq> n))"
proof -
  have p: "predictWebcam True (Some (landmarks # rest)) config g = analyzeGesture config g landmarks"
    by (simp add: predictWebcam_def)
  note calls = analyzeGesture_calls [OF assms, of config g]
  show ?thesis by (auto simp: p calls detect_refines_spec)
qed

lemma measure_fist_hand:
  "measure_hand fist_hand =
     Some \<lparr>isIndexUp = False, isMiddleUp = False, isRingUp = False, isPinkyUp = False,
           pinchDist = sqrt (4 / 25)\<rparr>"
  by (simp add: measure_hand_full fist_hand_def power2_eq_square)

lemma measure_neutral_hand:
  "measure_hand neutral_hand =
     Some \<lparr>isIndexUp = True, isMiddleUp = False, isRingUp = True, isPinkyUp = False,
           pinchDist = sqrt (1 / 4)\<rparr>"
  by (simp add: measure_hand_full neutral_hand_def power2_eq_square)

lemma fist_frame_calls:
  "predictWebcam True (Some [fist_hand]) initial_config ''None''
     = ([SetConfig (Mode GATHER), SetCurrentGesture ''FIST (Gather)'',
         SetCurrentGesture ''FIST (Gather)''], Inr ())"
proof -
  have "\<not> sqrt (4 / 25) < (1 / 20 :: real)" by (simp only: sqrt_less_threshold)
  then show ?thesis
    by (simp add: predictWebcam_def analyzeGesture_def measure_fist_hand detect_def
        initial_config_def)
qed

lemma neutral_frame_calls:
  "predictWebcam True (Some [neutral_hand]) initial_config ''None''
     = ([SetCurrentGesture ''NEUTRAL (Float)''], Inr ())"
proof -
  have "\<not> sqrt (1 / 4) < (1 / 20 :: real)" by (simp only: sqrt_less_threshold)
  then show ?thesis
    by (simp add: predictWebcam_def analyzeGesture_def measure_neutral_hand detect_def
        initial_config_def)
qed

text \<open>
  C10, on the code. In a run of the vision loop started while the state is the initial
  one (mode FLOAT, label \<open>None\<close>), the first frame with a fist makes the mode GATHER and the
  label \<open>FIST (Gather)\<close>. Every further frame with the fist makes the same setter
  calls again, the mode write and the label write twice, although mode and label already
  have those values; a frame with a neutral hand writes the label only, so after fist,
  fist, neutral hand the mode is still GATHER.
\<close>
theorem held_gesture_rewrites:
  "mode (st_config initial_state) = FLOAT
   \<and> mode (st_config
       (fst (vision_loop initial_config ''None'' [(True, Some [fist_hand])] initial_state)))
     = GATHER
   \<and> st_currentGesture
       (fst (vision_loop initial_config ''None'' [(True, Some [fist_hand])] initial_state))
     = ''FIST (Gather)''
   \<and> fst (predictWebcam True (Some [fist_hand]) initial_config ''None'')
     = [SetConfig (Mode GATHER), SetCurrentGesture ''FIST (Gather)'',
        SetCurrentGesture ''FIST (Gather)'']
   \<and> fst (predictWebcam True (Some [neutral_hand]) initial_config ''None'')
     = [SetCurrentGesture ''NEUTRAL (Float)'']
   \<and> mode (st_config
       (fst (vision_loop initial_config ''None''
          [(True, Some [fist_hand]), (True, Some [fist_hand]), (True, Some [neutral_hand])]
          initial_state)))
     = GATHER"
proof -
  have m: "mode initial_config = FLOAT" by (simp add: initial_config_def)
  show ?thesis
    by (simp add: fist_frame_calls neutral_frame_calls commit_def initial_state_def m)
qed

section \<open>Further evaluations at concrete inputs\<close>

lemma scene_config_sel:
  "mode (scene_config m v n) = m" "speed (scene_config m v n) = v"
  "count (scene_config m v n) = n" "size_cfg (scene_config m v n) = 1"
  by (simp_all add: scene_config_def)

lemma demo_random_range: "0 \<le> demo_random j \<and> demo_random j < 1"
  using pi_ge_two pi_less_4 by (simp add: demo_random_def)

lemma demo_scene_reachable: "scene_reachable demo_random demo_scene"
  unfolding demo_scene_def by (rule mesh_change, rule first_render)

lemma demo_scene_mounted: "meshRef demo_scene \<noteq> None"
  by (simp add: demo_scene_def)

lemma demo_particles:
  "particles demo_scene =
     [\<lparr>t = pi - 1 / 2, factor = 80, pSpeed = 13 / 1000, x = 10, y = 10, z = 10,
       mx = 0, my = 0, mz = 0\<rparr>]"
  by (simp add: demo_scene_def initial_scene_def scene_config_sel init_particles_def
      new_particle_def demo_random_def)

lemma drifted_particles:
  "particles (useFrame (scene_config FLOAT 1 1) 0 demo_scene) =
     [\<lparr>t = pi, factor = 80, pSpeed = 13 / 1000, x = 10, y = 10, z = 10,
       mx = - 1, my = 1 / 10, mz = - 1\<rparr>]"
proof -
  have c: "cos (pi * 2) = 1" using cos_two_pi by (simp add: mult.commute)
  show ?thesis
    by (simp add: useFrame_particles_mounted [OF demo_scene_mounted] demo_particles
        particle_update_def forEach_body_def scene_config_sel c)
qed

lemma drifted_scene_reachable:
  "scene_reachable demo_random (useFrame (scene_config FLOAT 1 1) 0 demo_scene)"
  by (rule frame, rule demo_scene_reachable)

lemma drifted_scene_mounted: "meshRef (useFrame (scene_config FLOAT 1 1) 0 demo_scene) \<noteq> None"
  by (rule useFrame_stays_mounted [OF demo_scene_mounted])


theorem gather_drift_counterexample:
  "0 < speed (scene_config GATHER 20 1)
   \<and> map drift (particles (useFrame (scene_config FLOAT 1 1) 0 demo_scene))
     = [(- 1, 1 / 10, - 1)]
   \<and> map drift (particles (useFrame (scene_config GATHER 20 1) (1 / 60)
        (useFrame (scene_config FLOAT 1 1) 0 demo_scene)))
     = [(1, - 1 / 10, 1)]
   \<and> \<not> magnitude (1, - 1 / 10, 1) < magnitude (- 1, 1 / 10, - 1)
   \<and> 0 < speed (scene_config GATHER 1 1)
   \<and> map drift (particles demo_scene) = [(0, 0, 0)]
   \<and> map drift (particles (useFrame (scene_config GATHER 1 1) 0 demo_scene)) = [(0, 0, 0)]"
  unfolding useFrame_particles_mounted [OF drifted_scene_mounted] drifted_particles
    useFrame_particles_mounted [OF demo_scene_mounted] demo_particles
  by (simp add: particle_update_def forEach_body_def scene_config_sel drift_def magnitude_def)

theorem gather_drift_converges_witness:
  "drift (particles (useFrame (scene_config GATHER 1 1) (1 / 60)
        (useFrame (scene_config FLOAT 1 1) 0 demo_scene)) ! 0)
     = (- 1 * (1 - 1 * 0.1), 1 / 10 * (1 - 1 * 0.1), - 1 * (1 - 1 * 0.1))
   \<and> magnitude (drift (particles (useFrame (scene_config GATHER 1 1) (1 / 60)
        (useFrame (scene_config FLOAT 1 1) 0 demo_scene)) ! 0))
     < magnitude (- 1, 1 / 10, - 1)
   \<and> (\<lambda>n. mx (particles (after_frames (scene_config GATHER 1 1) (\<lambda>k. real k / 60) n
        (useFrame (scene_config FLOAT 1 1) 0 demo_scene)) ! 0)) \<longlonglongrightarrow> 0"
proof -
  let ?s = "useFrame (scene_config FLOAT 1 1) 0 demo_scene"
  from drifted_scene_mounted obtain mesh where h2: "meshRef ?s = Some mesh" by auto
  have h1: "mode (scene_config GATHER 1 1) = GATHER" by (simp only: scene_config_sel)
  have h3: "0 < length (particles ?s)" unfolding drifted_particles by simp
  have sp: "speed (scene_config GATHER 1 1) = 1" by (simp only: scene_config_sel)
  have rg: "0 < speed (scene_config GATHER 1 1) \<and> speed (scene_config GATHER 1 1) < 20"
    unfolding sp by simp
  have p: "drift (particles ?s ! 0) = (- 1, 1 / 10, - 1)"
    "mx (particles ?s ! 0) = - 1" "my (particles ?s ! 0) = 1 / 10" "mz (particles ?s ! 0) = - 1"
    unfolding drifted_particles by (simp_all add: drift_def)
  have nz: "drift (particles ?s ! 0) \<noteq> (0, 0, 0)" unfolding p by simp
  note th = gather_drift_converges [OF h1 h2 h3, of "1 / 60" "\<lambda>k. real k / 60"]
  from th have a: "drift (particles (useFrame (scene_config GATHER 1 1) (1 / 60) ?s) ! 0)
     = (- 1 * (1 - 1 * 0.1), 1 / 10 * (1 - 1 * 0.1), - 1 * (1 - 1 * 0.1))"
    unfolding p sp by blast
  from th rg nz have b: "magnitude (drift (particles (useFrame (scene_config GATHER 1 1) (1 / 60) ?s) ! 0))
     < magnitude (drift (particles ?s ! 0))" by blast
  from th rg have c: "(\<lambda>n. mx (particles (after_frames (scene_config GATHER 1 1) (\<lambda>k. real k / 60) n ?s) ! 0))
     \<longlonglongrightarrow> 0" by blast
  from a b c show ?thesis unfolding p by blast
qed


theorem unrecognized_mode_renders_witness:
  "getMatrixAt (useFrame (scene_config Unrecognized 1 1) 0 (mounted_scene [seed_particle 1 2 3])) 0
     = Some \<lparr>position = vec 0 0 0, rotation = vec 0 1 0, scale = vec 1 1 1\<rparr>
   \<and> particles (useFrame (scene_config Unrecognized 1 1) 0 (mounted_scene [seed_particle 1 2 3]))
     = [seed_particle 1 2 3]"
proof -
  let ?mesh = "\<lparr>instanceMatrix = replicate (length [seed_particle 1 2 3]) new_Object3D,
               needsUpdate = False\<rparr>"
  have h1: "mode (scene_config Unrecognized 1 1) = Unrecognized" by (simp add: scene_config_def)
  have h2: "meshRef (mounted_scene [seed_particle 1 2 3]) = Some ?mesh"
    by (simp add: mounted_scene_def)
  have h3: "0 < length (particles (mounted_scene [seed_particle 1 2 3]))"
    by (simp add: mounted_scene_def)
  have h4: "0 < length (instanceMatrix ?mesh)" by simp
  from unrecognized_mode_renders [OF h1 h2 h3 h4, of 0]
  show ?thesis by (simp add: mounted_scene_def scene_config_def new_Object3D_def setScalar_def)
qed

theorem explode_position_witness:
  "map_option position
     (getMatrixAt (useFrame (scene_config EXPLODE 1 1) 0 (mounted_scene [seed_particle 10 10 10])) 0)
     = Some (vec 25 30 25)
   \<and> map drift (particles (useFrame (scene_config EXPLODE 1 1) 0 (mounted_scene [seed_particle 10 10 10])))
     = [(0, 0, 0)]"
proof -
  let ?mesh = "\<lparr>instanceMatrix = replicate (length [seed_particle 10 10 10]) new_Object3D,
               needsUpdate = False\<rparr>"
  have h1: "mode (scene_config EXPLODE 1 1) = EXPLODE" by (simp add: scene_config_def)
  have h2: "meshRef (mounted_scene [seed_particle 10 10 10]) = Some ?mesh"
    by (simp add: mounted_scene_def)
  have h3: "0 < length (particles (mounted_scene [seed_particle 10 10 10]))"
    by (simp add: mounted_scene_def)
  have h4: "0 < length (instanceMatrix ?mesh)" by simp
  from explode_position [OF h1 h2 h3 h4, of 0]
  show ?thesis by (simp add: mounted_scene_def seed_particle_def drift_def)
qed

theorem float_phase_accumulates_witness:
  "t (particles (useFrame (scene_config FLOAT 1 1) 0 (mounted_scene [seed_particle 1 2 3])) ! 0)
     = 1 / 2
   \<and> t (particles (after_frames (scene_config FLOAT 1 1) (\<lambda>k. real k / 60) 0
          (mounted_scene [seed_particle 1 2 3])) ! 0)
     < t (particles (after_frames (scene_config FLOAT 1 1) (\<lambda>k. real k / 60) 2
          (mounted_scene [seed_particle 1 2 3])) ! 0)
   \<and> map t (particles (useFrame (scene_config GATHER 1 1) 0 (mounted_scene [seed_particle 1 2 3])))
     = [0]"
proof -
  let ?p = "seed_particle 1 2 3"
  let ?mesh = "\<lparr>instanceMatrix = replicate (length [?p]) new_Object3D, needsUpdate = False\<rparr>"
  have h1: "meshRef (mounted_scene [?p]) = Some ?mesh" by (simp add: mounted_scene_def)
  have h2: "0 < length (particles (mounted_scene [?p]))" by (simp add: mounted_scene_def)
  have h3: "mode (scene_config FLOAT 1 1) = FLOAT" by (simp add: scene_config_def)
  have h4: "0 < speed (scene_config FLOAT 1 1)" by (simp add: scene_config_def)
  have h5: "mode (scene_config GATHER 1 1) \<noteq> FLOAT" by (simp add: scene_config_def)
  have h6: "(0::nat) < 2" by simp
  from float_phase_accumulates [OF h1 h2 h3 h4 h5 h6, of 0 "\<lambda>k. real k / 60"]
  show ?thesis by (simp add: mounted_scene_def seed_particle_def scene_config_def)
qed

end
